theory Spec2Isabelle
  imports Complex_Main
begin

section \<open>Faikin estimated power: the handlers of \<^verbatim>\<open>__init__.py\<close>\<close>

text \<open>
  The module keeps one dictionary \<^verbatim>\<open>_units\<close> (unit name to a dictionary of fields) and
  talks to the outside through \<^verbatim>\<open>mqtt.publish\<close>. Every function below takes the
  dictionary and returns the new dictionary together with the list of MQTT messages it
  published, in order. Python ints are \<open>int\<close>; Python floats are IEEE doubles, modelled by
  the type \<open>pyfloat\<close> below with correctly rounded arithmetic. The clock reading
  \<^verbatim>\<open>datetime.now(timezone.utc).timestamp()\<close> is an argument of the two handlers. Calls of
  \<^verbatim>\<open>log.debug\<close> and \<^verbatim>\<open>log.info\<close> touch neither the dictionary nor MQTT and are left out.
  An exception that no \<^verbatim>\<open>try\<close> catches ends the handler where it is raised: the function
  returns the store and the messages as they are at that point.
\<close>

subsection \<open>Python floats\<close>

text \<open>
  A double is a finite value, an infinity or a NaN. \<open>Fin\<close> carries the value as a real
  number; the results of the operations below are doubles. The two zeros are not
  told apart.
\<close>

datatype pyfloat = Fin real | PInf | NInf | NaN

text \<open>
  The comparisons of Python floats: every comparison with a NaN is false. \<open>0\<close> is the
  float \<^verbatim>\<open>0.0\<close>, so that \<open>x \<noteq> 0\<close> is the truth value of the float \<open>x\<close>.
\<close>

instantiation pyfloat :: "{zero, ord}"
begin

definition zero_pyfloat :: pyfloat where
  "zero_pyfloat = Fin 0"

fun less_eq_pyfloat :: "pyfloat \<Rightarrow> pyfloat \<Rightarrow> bool" where
  "less_eq_pyfloat NaN y = False"
| "less_eq_pyfloat x NaN = False"
| "less_eq_pyfloat NInf y = True"
| "less_eq_pyfloat x PInf = True"
| "less_eq_pyfloat (Fin a) (Fin b) = (a \<le> b)"
| "less_eq_pyfloat x y = False"

fun less_pyfloat :: "pyfloat \<Rightarrow> pyfloat \<Rightarrow> bool" where
  "less_pyfloat NaN y = False"
| "less_pyfloat x NaN = False"
| "less_pyfloat (Fin a) (Fin b) = (a < b)"
| "less_pyfloat x NInf = False"
| "less_pyfloat PInf y = False"
| "less_pyfloat x y = True"

instance ..

end

text \<open>\<^verbatim>\<open>max(a, b)\<close> keeps the first argument unless the second is greater.\<close>

definition py_max :: "pyfloat \<Rightarrow> pyfloat \<Rightarrow> pyfloat" where
  "py_max a b = (if a < b then b else a)"

text \<open>Rounding a real number to the nearest integer, a tie going to the even neighbour.\<close>

definition round_half_even :: "real \<Rightarrow> int" where
  "round_half_even x =
     (let f = \<lfloor>x\<rfloor>; d = x - of_int f
      in if d < 1 / 2 then f
         else if 1 / 2 < d then f + 1
         else if even f then f else f + 1)"

text \<open>
  The exponent of the binade of a nonnegative number, from \<open>-1022\<close> (which also takes
  everything below \<open>2 powi (-1022)\<close>) up to 1024 (everything from \<open>2 powi 1024\<close> on).
\<close>

fun binade_from :: "nat \<Rightarrow> int \<Rightarrow> real \<Rightarrow> int" where
  "binade_from 0 e a = e"
| "binade_from (Suc n) e a = (if a < 2 powi (e + 1) then e else binade_from n (e + 1) a)"

definition binade :: "real \<Rightarrow> int" where
  "binade a = binade_from 2046 (- 1022) a"

text \<open>
  The double nearest to a real number (round to nearest, ties to even): 53 significant
  bits, gradual underflow below \<open>2 powi (-1022)\<close>, an infinity when the rounded value
  reaches \<open>2 powi 1024\<close>. Every float operation returns its exact result rounded this way.
\<close>

definition fl :: "real \<Rightarrow> pyfloat" where
  "fl x =
     (let e = binade \<bar>x\<bar>; u = 2 powi (e - 52);
          r = of_int (round_half_even (x / u)) * u
      in if 2 powi 1024 \<le> \<bar>r\<bar> then (if 0 < x then PInf else NInf) else Fin r)"

fun fl_neg :: "pyfloat \<Rightarrow> pyfloat" where
  "fl_neg (Fin a) = Fin (- a)"
| "fl_neg PInf = NInf"
| "fl_neg NInf = PInf"
| "fl_neg NaN = NaN"

fun fl_add :: "pyfloat \<Rightarrow> pyfloat \<Rightarrow> pyfloat" where
  "fl_add (Fin a) (Fin b) = fl (a + b)"
| "fl_add NaN y = NaN"
| "fl_add x NaN = NaN"
| "fl_add PInf NInf = NaN"
| "fl_add NInf PInf = NaN"
| "fl_add PInf y = PInf"
| "fl_add NInf y = NInf"
| "fl_add x y = y"

definition fl_sub :: "pyfloat \<Rightarrow> pyfloat \<Rightarrow> pyfloat" where
  "fl_sub x y = fl_add x (fl_neg y)"

fun fl_mul :: "pyfloat \<Rightarrow> pyfloat \<Rightarrow> pyfloat" where
  "fl_mul (Fin a) (Fin b) = fl (a * b)"
| "fl_mul NaN y = NaN"
| "fl_mul x NaN = NaN"
| "fl_mul (Fin a) y = (if a = 0 then NaN else if 0 < a then y else fl_neg y)"
| "fl_mul x (Fin b) = (if b = 0 then NaN else if 0 < b then x else fl_neg x)"
| "fl_mul x y = (if x = y then PInf else NInf)"

text \<open>The quotient by a nonzero divisor.\<close>

fun fl_div :: "pyfloat \<Rightarrow> pyfloat \<Rightarrow> pyfloat" where
  "fl_div (Fin a) (Fin b) = fl (a / b)"
| "fl_div NaN y = NaN"
| "fl_div x NaN = NaN"
| "fl_div (Fin a) y = Fin 0"
| "fl_div x (Fin b) = (if 0 < b then x else fl_neg x)"
| "fl_div x y = NaN"

text \<open>\<^verbatim>\<open>x / y\<close>: \<open>ZeroDivisionError\<close> (\<open>None\<close>) when the divisor is zero.\<close>

definition py_div :: "pyfloat \<Rightarrow> pyfloat \<Rightarrow> pyfloat option" where
  "py_div x y = (if y = 0 then None else Some (fl_div x y))"

text \<open>
  \<^verbatim>\<open>float(n)\<close> of an int: the nearest double, \<open>OverflowError\<close> (\<open>None\<close>) when that is not
  finite.
\<close>

definition float_of_int :: "int \<Rightarrow> pyfloat option" where
  "float_of_int n = (case fl (of_int n) of Fin r \<Rightarrow> Some (Fin r) | _ \<Rightarrow> None)"

text \<open>
  \<^verbatim>\<open>round(x, 1)\<close>: a finite value goes to the nearest multiple of one tenth, a tie to the
  even neighbour; an infinity and a NaN stay. The payload of a power message is the text
  of this number.
\<close>

definition round_tenth :: "real \<Rightarrow> real" where
  "round_tenth x = of_int (round_half_even (x * 10)) / 10"

fun py_round1 :: "pyfloat \<Rightarrow> pyfloat" where
  "py_round1 (Fin r) = Fin (round_tenth r)"
| "py_round1 x = x"

subsection \<open>Decoded values and the Python builtins applied to them\<close>

text \<open>A decoded JSON (or YAML) value, as found in \<^verbatim>\<open>payload_obj\<close> and in the app configuration.\<close>

datatype json =
    JNull
  | JBool bool
  | JInt int
  | JFloat pyfloat
  | JStr string
  | JArr "json list"
  | JObj "(string \<times> json) list"

type_synonym payload_obj = "string \<rightharpoonup> json"

text \<open>
  What \<^verbatim>\<open>int\<close>, \<^verbatim>\<open>float\<close> and \<^verbatim>\<open>str\<close> do on the text of a string (and \<^verbatim>\<open>str\<close> on a
  value that is not a string) is not part of the module; these three are parameters.
  \<open>None\<close> stands for the raised exception.
\<close>

record builtins =
  int_of_str :: "string \<Rightarrow> int option"
  float_of_str :: "string \<Rightarrow> pyfloat option"
  str_of :: "json \<Rightarrow> string"

text \<open>Truth value of a Python object, as used by \<^verbatim>\<open>or\<close> and \<^verbatim>\<open>if\<close>.\<close>

fun py_truthy :: "json \<Rightarrow> bool" where
  "py_truthy JNull = False"
| "py_truthy (JBool b) = b"
| "py_truthy (JInt n) = (n \<noteq> 0)"
| "py_truthy (JFloat x) = (x \<noteq> 0)"
| "py_truthy (JStr s) = (s \<noteq> [])"
| "py_truthy (JArr xs) = (xs \<noteq> [])"
| "py_truthy (JObj kvs) = (kvs \<noteq> [])"

text \<open>
  \<^verbatim>\<open>int(v)\<close>: truncation toward zero on a finite float; an infinity, a NaN, \<^verbatim>\<open>None\<close> and
  the containers raise.
\<close>

fun py_int :: "builtins \<Rightarrow> json \<Rightarrow> int option" where
  "py_int b JNull = None"
| "py_int b (JBool x) = Some (if x then 1 else 0)"
| "py_int b (JInt n) = Some n"
| "py_int b (JFloat (Fin r)) = Some (if 0 \<le> r then \<lfloor>r\<rfloor> else \<lceil>r\<rceil>)"
| "py_int b (JFloat x) = None"
| "py_int b (JStr s) = int_of_str b s"
| "py_int b (JArr xs) = None"
| "py_int b (JObj kvs) = None"

text \<open>\<^verbatim>\<open>float(v)\<close>; on an int beyond the range of the doubles it raises.\<close>

fun py_float :: "builtins \<Rightarrow> json \<Rightarrow> pyfloat option" where
  "py_float b JNull = None"
| "py_float b (JBool x) = Some (Fin (if x then 1 else 0))"
| "py_float b (JInt n) = float_of_int n"
| "py_float b (JFloat x) = Some x"
| "py_float b (JStr s) = float_of_str b s"
| "py_float b (JArr xs) = None"
| "py_float b (JObj kvs) = None"

fun py_str :: "builtins \<Rightarrow> json \<Rightarrow> string" where
  "py_str b (JStr s) = s"
| "py_str b v = str_of b v"

subsection \<open>App configuration\<close>

text \<open>
  The module-level constants read from \<^verbatim>\<open>pyscript.app_config\<close>. \<open>MARGIN_FACTOR\<close> is kept
  as the configured value (\<open>JNull\<close> for \<^verbatim>\<open>None\<close>); the others are converted when the module
  loads.
\<close>

record config =
  STATUS_PREFIX :: string
  DISCOVERY_PREFIX :: string
  MARGIN_SECONDS_DEFAULT :: pyfloat
  MARGIN_FACTOR :: json
  MIN_POWER_W :: pyfloat
  ENABLE_COMP_FALLBACK :: bool

definition default_config :: config where
  "default_config =
     \<lparr>STATUS_PREFIX = ''state'', DISCOVERY_PREFIX = ''homeassistant'',
      MARGIN_SECONDS_DEFAULT = Fin 300, MARGIN_FACTOR = JFloat (Fin (1 / 2)),
      MIN_POWER_W = 0, ENABLE_COMP_FALLBACK = False\<rparr>"

subsection \<open>Per-unit state and outbound messages\<close>

text \<open>One entry of \<^verbatim>\<open>_units\<close>; a key that is absent from the Python dictionary is \<open>None\<close>.\<close>

record unit_rec =
  last_wh :: "int option"
  last_ts :: "pyfloat option"
  hold_until :: "pyfloat option"
  last_w :: "pyfloat option"
  discovered :: "bool option"

definition empty_rec :: unit_rec where
  "empty_rec = \<lparr>last_wh = None, last_ts = None, hold_until = None, last_w = None,
                 discovered = None\<rparr>"

type_synonym units = "string \<rightharpoonup> unit_rec"

record device_info =
  identifiers :: "string list"
  manufacturer :: string
  model :: string
  device_name :: string
  configuration_url :: "string option"

record discovery_payload =
  sensor_name :: string
  unique_id :: string
  state_topic :: string
  unit_of_measurement :: string
  device_class :: string
  state_class :: string
  icon :: string
  availability_topic :: string
  availability_template :: string
  payload_available :: string
  payload_not_available :: string
  device :: device_info

datatype mqtt_payload = Watts pyfloat | Config discovery_payload

record mqtt_msg =
  topic :: string
  payload :: mqtt_payload
  qos :: nat
  retain :: bool

text \<open>
  \<^verbatim>\<open>_units.get(unit, {})\<close> reads the entry, an empty one when the unit has none;
  \<^verbatim>\<open>_units.setdefault(unit, {})\<close> also stores that empty entry.
\<close>

definition get_rec :: "units \<Rightarrow> string \<Rightarrow> unit_rec" where
  "get_rec st unit = (case st unit of None \<Rightarrow> empty_rec | Some r \<Rightarrow> r)"

definition setdefault :: "string \<Rightarrow> units \<Rightarrow> units" where
  "setdefault unit st = st(unit \<mapsto> get_rec st unit)"

text \<open>\<^verbatim>\<open>rec.get("hold_until", 0.0)\<close>\<close>

definition hold_of :: "unit_rec \<Rightarrow> pyfloat" where
  "hold_of r = (case hold_until r of None \<Rightarrow> 0 | Some h \<Rightarrow> h)"

text \<open>
  An assignment \<^verbatim>\<open>rec[key] = v\<close>: \<^verbatim>\<open>rec\<close> is the very object stored under \<^verbatim>\<open>_units[unit]\<close>,
  so the write is a write to the entry as it is at that moment.
\<close>

definition upd_rec :: "string \<Rightarrow> (unit_rec \<Rightarrow> unit_rec) \<Rightarrow> units \<Rightarrow> units" where
  "upd_rec unit f st = st(unit \<mapsto> f (get_rec st unit))"

subsection \<open>MQTT discovery and power publishing\<close>

definition power_topic :: "string \<Rightarrow> string" where
  "power_topic unit = ''faikin/'' @ unit @ ''/power_w''"

definition cfg_topic :: "config \<Rightarrow> string \<Rightarrow> string" where
  "cfg_topic cfg unit = DISCOVERY_PREFIX cfg @ ''/sensor/'' @ (unit @ ''_power'') @ ''/config''"

definition discovery_msg :: "config \<Rightarrow> string \<Rightarrow> string \<Rightarrow> string option \<Rightarrow> mqtt_msg" where
  "discovery_msg cfg unit dev_id config_url =
     \<lparr>topic = cfg_topic cfg unit,
      payload = Config
        \<lparr>sensor_name = ''Faikin '' @ unit @ '' Power'',
         unique_id = dev_id @ ''_power'',
         state_topic = power_topic unit,
         unit_of_measurement = ''W'',
         device_class = ''power'',
         state_class = ''measurement'',
         icon = ''mdi:flash'',
         availability_topic = STATUS_PREFIX cfg @ ''/'' @ unit,
         availability_template = ''{{ (value_json.up | default(true)) | string | lower }}'',
         payload_available = ''true'',
         payload_not_available = ''false'',
         device =
           \<lparr>identifiers = [dev_id], manufacturer = ''RevK'', model = ''Faikin'',
            device_name = ''faikin-'' @ unit,
            configuration_url =
              (case config_url of None \<Rightarrow> None
               | Some u \<Rightarrow> if u \<noteq> [] then Some u else None)\<rparr>\<rparr>,
      qos = 1, retain = True\<rparr>"

definition discovery ::
    "config \<Rightarrow> string \<Rightarrow> string \<Rightarrow> string option \<Rightarrow> units \<Rightarrow> units \<times> mqtt_msg list" where
  "discovery cfg unit dev_id config_url st =
     (let st0 = setdefault unit st
      in if discovered (get_rec st0 unit) = Some True then (st0, [])
         else (upd_rec unit (\<lambda>r. r\<lparr>discovered := Some True\<rparr>) st0,
               [discovery_msg cfg unit dev_id config_url]))"

definition clamp_watts :: "config \<Rightarrow> pyfloat \<Rightarrow> pyfloat" where
  "clamp_watts cfg watts =
     (let w1 = (if watts < 0 then 0 else watts)
      in if MIN_POWER_W cfg \<noteq> 0 \<and> 0 < w1 then py_max w1 (MIN_POWER_W cfg) else w1)"

definition publish_power ::
    "config \<Rightarrow> string \<Rightarrow> pyfloat \<Rightarrow> units \<Rightarrow> units \<times> mqtt_msg list" where
  "publish_power cfg unit watts st =
     (let w = clamp_watts cfg watts
      in (upd_rec unit (\<lambda>r. r\<lparr>last_w := Some w\<rparr>) st,
          [\<lparr>topic = power_topic unit, payload = Watts (py_round1 w), qos = 0,
            retain = True\<rparr>]))"

definition compute_hold_seconds :: "builtins \<Rightarrow> config \<Rightarrow> pyfloat \<Rightarrow> pyfloat" where
  "compute_hold_seconds b cfg last_dt_seconds =
     (case (if MARGIN_FACTOR cfg \<noteq> JNull then py_float b (MARGIN_FACTOR cfg) else None) of
        Some fac \<Rightarrow> py_max 0 (fl_mul last_dt_seconds (fl_add (Fin 1) fac))
      | None \<Rightarrow> py_max 0 (fl_add last_dt_seconds (MARGIN_SECONDS_DEFAULT cfg)))"

subsection \<open>Energy-derived power\<close>

text \<open>The two branches that store a new baseline and publish 0 have the same body.\<close>

definition reinit ::
    "config \<Rightarrow> string \<Rightarrow> int \<Rightarrow> pyfloat \<Rightarrow> units \<Rightarrow> units \<times> mqtt_msg list" where
  "reinit cfg unit wh_now ts_now st =
     publish_power cfg unit 0
       (upd_rec unit (\<lambda>r. r\<lparr>last_wh := Some wh_now, last_ts := Some ts_now,
                              hold_until := Some 0\<rparr>) st)"

definition update_from_energy ::
    "builtins \<Rightarrow> config \<Rightarrow> string \<Rightarrow> int \<Rightarrow> pyfloat \<Rightarrow> units \<Rightarrow> units \<times> mqtt_msg list" where
  "update_from_energy b cfg unit wh_now ts_now st =
     (let st0 = setdefault unit st; rec = get_rec st0 unit
      in case (last_wh rec, last_ts rec) of
           (Some lwh, Some lts) \<Rightarrow>
             if wh_now < lwh then reinit cfg unit wh_now ts_now st0
             else if wh_now = lwh then
               (let hold = hold_of rec
                in if hold \<noteq> 0 \<and> ts_now > hold then
                     (let (st1, out) = publish_power cfg unit 0 st0
                      in (upd_rec unit (\<lambda>r. r\<lparr>hold_until := Some 0\<rparr>) st1, out))
                   else (st0, []))
             else
               (case float_of_int (wh_now - lwh) of
                  None \<Rightarrow> (st0, [])
                | Some dwh \<Rightarrow>
                    (let dt = py_max (Fin (1 / 2)) (fl_sub ts_now lts)
                     in case py_div (fl_mul dwh (Fin 3600)) dt of
                          None \<Rightarrow> (st0, [])
                        | Some watts \<Rightarrow>
                            (let hold_seconds = compute_hold_seconds b cfg dt
                             in publish_power cfg unit watts
                                  (upd_rec unit
                                     (\<lambda>r. r\<lparr>last_wh := Some wh_now, last_ts := Some ts_now,
                                             hold_until := Some (fl_add ts_now hold_seconds)\<rparr>)
                                     st0))))
         | _ \<Rightarrow> reinit cfg unit wh_now ts_now st0)"

subsection \<open>Compressor fallback\<close>

definition estimate_power_from_comp :: "pyfloat option \<Rightarrow> pyfloat option \<Rightarrow> pyfloat" where
  "estimate_power_from_comp comp_hz fanfreq =
     (case comp_hz of
        None \<Rightarrow> 0
      | Some c \<Rightarrow> if c \<le> 0 then 0 else py_max 0 (fl_mul c (Fin 50)))"

subsection \<open>The two MQTT handlers\<close>

text \<open>\<^verbatim>\<open>topic.split("/", 1)[1]\<close>: what follows the first slash; \<open>IndexError\<close> without one.\<close>

definition topic_unit :: "string \<Rightarrow> string option" where
  "topic_unit t =
     (case dropWhile (\<lambda>c. c \<noteq> CHR ''/'') t of [] \<Rightarrow> None | _ # rest \<Rightarrow> Some rest)"

text \<open>\<^verbatim>\<open>str(payload_obj.get("id") or f"faikin-{unit}")\<close>\<close>

definition device_id :: "builtins \<Rightarrow> payload_obj \<Rightarrow> string \<Rightarrow> string" where
  "device_id b p unit =
     py_str b (case p ''id'' of
                 Some v \<Rightarrow> if py_truthy v then v else JStr (''faikin-'' @ unit)
               | None \<Rightarrow> JStr (''faikin-'' @ unit))"

text \<open>
  \<^verbatim>\<open>int(payload_obj["Wh"])\<close> inside its \<^verbatim>\<open>try\<close>: \<open>None\<close> when the key is missing or the
  conversion raises.
\<close>

definition parse_wh :: "builtins \<Rightarrow> payload_obj \<Rightarrow> int option" where
  "parse_wh b p = (case p ''Wh'' of None \<Rightarrow> None | Some v \<Rightarrow> py_int b v)"

text \<open>
  The \<^verbatim>\<open>try\<close> block that converts \<^verbatim>\<open>comp\<close> and \<^verbatim>\<open>fanfreq\<close>: a missing or null \<^verbatim>\<open>comp\<close> is
  0.0, a missing or null \<^verbatim>\<open>fanfreq\<close> stays \<^verbatim>\<open>None\<close>, and when either conversion raises
  both are reset to \<open>(0.0, None)\<close>.
\<close>

definition parse_comp_fan :: "builtins \<Rightarrow> payload_obj \<Rightarrow> pyfloat \<times> pyfloat option" where
  "parse_comp_fan b p =
     (let comp0 = (case p ''comp'' of
                     None \<Rightarrow> Some 0
                   | Some v \<Rightarrow> if v = JNull then Some 0 else py_float b v);
          fan0 = (case p ''fanfreq'' of
                    None \<Rightarrow> Some None
                  | Some v \<Rightarrow> if v = JNull then Some None else map_option Some (py_float b v))
      in case (comp0, fan0) of
           (Some c, Some f) \<Rightarrow> (c, f)
         | _ \<Rightarrow> (0, None))"

definition faikin_energy_tick ::
    "builtins \<Rightarrow> config \<Rightarrow> string \<Rightarrow> payload_obj \<Rightarrow> pyfloat \<Rightarrow> units \<Rightarrow> units \<times> mqtt_msg list" where
  "faikin_energy_tick b cfg t p now st =
     (case topic_unit t of
        None \<Rightarrow> (st, [])
      | Some unit \<Rightarrow>
          (let (st1, out1) =
                 discovery cfg unit (device_id b p unit) (Some (''http://'' @ unit @ ''.local/'')) st
           in case parse_wh b p of
                None \<Rightarrow> (st1, out1)
              | Some wh \<Rightarrow>
                  (let (st2, out2) = update_from_energy b cfg unit wh now st1
                   in (st2, out1 @ out2))))"

definition faikin_comp_estimate ::
    "builtins \<Rightarrow> config \<Rightarrow> string \<Rightarrow> payload_obj \<Rightarrow> pyfloat \<Rightarrow> units \<Rightarrow> units \<times> mqtt_msg list" where
  "faikin_comp_estimate b cfg t p now st =
     (if \<not> ENABLE_COMP_FALLBACK cfg then (st, [])
      else case topic_unit t of
        None \<Rightarrow> (st, [])
      | Some unit \<Rightarrow>
          (let (st1, out1) =
                 discovery cfg unit (device_id b p unit) (Some (''http://'' @ unit @ ''.local/'')) st;
               hold = hold_of (get_rec st1 unit)
           in if hold \<noteq> 0 \<and> now \<le> hold then (st1, out1)
              else
                (let (comp, fan) = parse_comp_fan b p;
                     est = estimate_power_from_comp (Some comp) fan;
                     (st2, out2) = publish_power cfg unit est st1
                 in (st2, out1 @ out2))))"

subsection \<open>Sequences of handler invocations\<close>

text \<open>
  One invocation of a handler by the trigger machinery: the topic, the decoded payload and
  the clock reading taken inside the handler. The handlers run one at a time, each to
  completion; the store starts empty when the module is loaded.
\<close>

datatype event =
    EnergyTick string payload_obj pyfloat
  | CompEstimate string payload_obj pyfloat

fun handle :: "builtins \<Rightarrow> config \<Rightarrow> event \<Rightarrow> units \<Rightarrow> units \<times> mqtt_msg list" where
  "handle b cfg (EnergyTick t p now) st = faikin_energy_tick b cfg t p now st"
| "handle b cfg (CompEstimate t p now) st = faikin_comp_estimate b cfg t p now st"

fun run :: "builtins \<Rightarrow> config \<Rightarrow> event list \<Rightarrow> units \<Rightarrow> units \<times> mqtt_msg list" where
  "run b cfg [] st = (st, [])"
| "run b cfg (e # es) st =
     (let (st1, out1) = handle b cfg e st; (st2, out2) = run b cfg es st1
      in (st2, out1 @ out2))"

text \<open>Successive calls of \<^verbatim>\<open>_update_from_energy\<close> for one unit, each with its reading and time.\<close>

fun update_seq ::
    "builtins \<Rightarrow> config \<Rightarrow> string \<Rightarrow> (int \<times> pyfloat) list \<Rightarrow> units \<Rightarrow> units \<times> mqtt_msg list" where
  "update_seq b cfg unit [] st = (st, [])"
| "update_seq b cfg unit ((wh, ts) # xs) st =
     (let (st1, out1) = update_from_energy b cfg unit wh ts st;
          (st2, out2) = update_seq b cfg unit xs st1
      in (st2, out1 @ out2))"

subsection \<open>Vocabulary of the properties\<close>

text \<open>The wattage carried by a message, if it is a power message.\<close>

definition watts_of :: "mqtt_msg \<Rightarrow> pyfloat option" where
  "watts_of m = (case payload m of Watts w \<Rightarrow> Some w | Config d \<Rightarrow> None)"

text \<open>The message is the discovery announcement of the given unit.\<close>

definition is_discovery_for :: "config \<Rightarrow> string \<Rightarrow> mqtt_msg \<Rightarrow> bool" where
  "is_discovery_for cfg unit m =
     (topic m = cfg_topic cfg unit \<and> (case payload m of Config d \<Rightarrow> True | Watts w \<Rightarrow> False))"

text \<open>How many discovery announcements of the given unit a list of messages holds.\<close>

definition announcements :: "config \<Rightarrow> string \<Rightarrow> mqtt_msg list \<Rightarrow> nat" where
  "announcements cfg unit out = length (filter (is_discovery_for cfg unit) out)"

text \<open>
  The invocation reaches the call of \<^verbatim>\<open>_discovery\<close> for the given unit: an energy tick
  whose topic names the unit, or a compressor message whose topic names it while the
  fallback is enabled.
\<close>

fun reaches_discovery :: "config \<Rightarrow> string \<Rightarrow> event \<Rightarrow> bool" where
  "reaches_discovery cfg unit (EnergyTick t p now) = (topic_unit t = Some unit)"
| "reaches_discovery cfg unit (CompEstimate t p now) =
     (ENABLE_COMP_FALLBACK cfg \<and> topic_unit t = Some unit)"

text \<open>
  A concrete choice of the three builtins for the examples below, none of which converts
  the text of a string: every string is rejected as a number.
\<close>

definition example_builtins :: builtins where
  "example_builtins =
     \<lparr>int_of_str = (\<lambda>s. None), float_of_str = (\<lambda>s. None), str_of = (\<lambda>v. [])\<rparr>"

text \<open>
  A reading of the clock: a finite double well inside the range of the doubles (a
  \<^verbatim>\<open>datetime\<close> timestamp is below \<open>2 ^ 38\<close> in size).
\<close>

fun is_clock :: "pyfloat \<Rightarrow> bool" where
  "is_clock (Fin t) = (\<bar>t\<bar> < 2 ^ 1022)"
| "is_clock x = False"

fun event_time :: "event \<Rightarrow> pyfloat" where
  "event_time (EnergyTick t p now) = now"
| "event_time (CompEstimate t p now) = now"

text \<open>The times stored with the readings are readings of the clock.\<close>

definition stored_clocks :: "units \<Rightarrow> bool" where
  "stored_clocks st = (\<forall>u ts. last_ts (get_rec st u) = Some ts \<longrightarrow> is_clock ts)"

text \<open>The default configuration with \<^verbatim>\<open>min_power_w: 1000.125\<close>.\<close>

definition floor_config :: config where
  "floor_config = default_config\<lparr>MIN_POWER_W := Fin (8001 / 8)\<rparr>"

text \<open>A unit's entry holding a reading, its time and a hold deadline.\<close>

definition tracked_rec :: "int \<Rightarrow> real \<Rightarrow> real \<Rightarrow> unit_rec" where
  "tracked_rec wh ts hold =
     \<lparr>last_wh = Some wh, last_ts = Some (Fin ts), hold_until = Some (Fin hold),
      last_w = Some 0, discovered = Some True\<rparr>"

section \<open>Properties\<close>

subsection \<open>Rounding to a double\<close>

lemma round_half_even_of_int: "round_half_even (of_int n) = n"
  by (simp add: round_half_even_def)

lemma round_half_even_bounds: "\<lfloor>x\<rfloor> \<le> round_half_even x \<and> round_half_even x \<le> \<lfloor>x\<rfloor> + 1"
  by (simp add: round_half_even_def Let_def)

lemma round_half_even_mono:
  assumes "x \<le> y"
  shows "round_half_even x \<le> round_half_even y"
proof (cases "\<lfloor>x\<rfloor> = \<lfloor>y\<rfloor>")
  case True
  have "x - of_int \<lfloor>y\<rfloor> \<le> y - of_int \<lfloor>y\<rfloor>" using assms by simp
  then show ?thesis
    by (auto simp: round_half_even_def Let_def True)
next
  case False
  have "\<lfloor>x\<rfloor> \<le> \<lfloor>y\<rfloor>" using assms by (rule floor_mono)
  then have "\<lfloor>x\<rfloor> + 1 \<le> \<lfloor>y\<rfloor>" using False by simp
  then show ?thesis
    using round_half_even_bounds [of x] round_half_even_bounds [of y] by linarith
qed

lemma binade_from_bounds: "e \<le> binade_from n e a \<and> binade_from n e a \<le> e + int n"
proof (induction n arbitrary: e)
  case 0
  show ?case by simp
next
  case (Suc n)
  show ?case using Suc [of "e + 1"] by auto
qed

lemma binade_from_upper:
  "binade_from n e a < e + int n \<Longrightarrow> a < 2 powi (binade_from n e a + 1)"
proof (induction n arbitrary: e)
  case 0
  then show ?case by simp
next
  case (Suc n)
  then show ?case using Suc.IH [of "e + 1"] by (auto split: if_splits)
qed

lemma binade_from_lower: "e < binade_from n e a \<Longrightarrow> 2 powi (binade_from n e a) \<le> a"
proof (induction n arbitrary: e)
  case 0
  then show ?case by simp
next
  case (Suc n)
  show ?case
  proof (cases "a < 2 powi (e + 1)")
    case True
    then show ?thesis using Suc.prems by simp
  next
    case False
    show ?thesis
    proof (cases "e + 1 < binade_from n (e + 1) a")
      case True
      then show ?thesis using Suc.IH [of "e + 1"] False by simp
    next
      case b: False
      then have "binade_from n (e + 1) a = e + 1"
        using binade_from_bounds [of "e + 1" n a] by simp
      then show ?thesis using False by simp
    qed
  qed
qed

lemma binade_range: "- 1022 \<le> binade a \<and> binade a \<le> 1024"
  using binade_from_bounds [of "- 1022" 2046 a] by (simp add: binade_def)

lemma binade_lower: "- 1022 < binade a \<Longrightarrow> 2 powi (binade a) \<le> a"
  unfolding binade_def by (rule binade_from_lower)

lemma binade_upper:
  assumes "a < 2 powi 1024"
  shows "a < 2 powi (binade a + 1)" and "binade a \<le> 1023"
proof -
  have "binade a \<noteq> 1024"
  proof
    assume e: "binade a = 1024"
    have "2 powi (binade a) \<le> a" by (rule binade_lower) (simp add: e)
    then show False using assms e by simp
  qed
  then show le: "binade a \<le> 1023" using binade_range [of a] by simp
  then have "binade_from 2046 (- 1022) a < - 1022 + int 2046" by (simp add: binade_def)
  then show "a < 2 powi (binade a + 1)"
    unfolding binade_def by (rule binade_from_upper)
qed

lemma binade_eqI:
  assumes "- 1022 \<le> e" and "e \<le> 1023" and "a < 2 powi (e + 1)"
    and "e = - 1022 \<or> 2 powi e \<le> a"
  shows "binade a = e"
proof -
  have "(2::real) powi (e + 1) \<le> 2 powi 1024"
    using assms(2) by (intro power_int_increasing) simp_all
  then have a: "a < 2 powi 1024" using assms(3) by simp
  have u: "a < 2 powi (binade a + 1)" by (rule binade_upper [OF a])
  have "\<not> e < binade a"
  proof
    assume l: "e < binade a"
    then have "2 powi (binade a) \<le> a" using assms(1) by (intro binade_lower) simp
    then have "(2::real) powi (binade a) < 2 powi (e + 1)" using assms(3) by simp
    then have "binade a < e + 1"
      using power_int_increasing [of "e + 1" "binade a" "2::real"] by (cases "binade a < e + 1") auto
    then show False using l by simp
  qed
  moreover have "\<not> binade a < e"
  proof
    assume l: "binade a < e"
    then have "e \<noteq> - 1022" using binade_range [of a] by simp
    then have "2 powi e \<le> a" using assms(4) by simp
    moreover have "(2::real) powi (binade a + 1) \<le> 2 powi e"
      using l by (intro power_int_increasing) simp_all
    ultimately show False using u by simp
  qed
  ultimately show ?thesis by simp
qed

lemma fl_eqI:
  assumes "- 1022 \<le> e" and "e \<le> 1023" and "\<bar>x\<bar> < 2 powi (e + 1)"
    and "e = - 1022 \<or> 2 powi e \<le> \<bar>x\<bar>"
    and "round_half_even (x / 2 powi (e - 52)) = n"
    and "\<bar>of_int n * 2 powi (e - 52)\<bar> < (2::real) powi 1024"
  shows "fl x = Fin (of_int n * 2 powi (e - 52))"
  using assms(5,6) by (simp add: fl_def Let_def binade_eqI [OF assms(1-4)])

lemma fl_exact:
  assumes x: "x = of_int m * 2 powi k" and m: "\<bar>m\<bar> < 2 ^ 53" and k: "- 1074 \<le> k"
    and r: "\<bar>x\<bar> < 2 powi 1024"
  shows "fl x = Fin x"
proof -
  define e where "e = binade \<bar>x\<bar>"
  have e1: "- 1022 \<le> e" using binade_range [of "\<bar>x\<bar>"] by (simp add: e_def)
  have ke: "e - 52 \<le> k"
  proof (cases "e = - 1022")
    case True
    then show ?thesis using k by simp
  next
    case False
    then have "2 powi e \<le> \<bar>x\<bar>" using e1 binade_lower [of "\<bar>x\<bar>"] by (simp add: e_def)
    also have "\<bar>x\<bar> = \<bar>of_int m\<bar> * 2 powi k" by (simp add: x abs_mult power_int_abs)
    also have "\<dots> < 2 ^ 53 * 2 powi k"
    proof -
      have "\<bar>real_of_int m\<bar> < 2 ^ 53"
        using m by (metis of_int_abs of_int_less_numeral_power_cancel_iff)
      then show ?thesis by (intro mult_strict_right_mono) simp_all
    qed
    also have "\<dots> = 2 powi (53 + k)" by (simp add: power_int_add)
    finally have "(2::real) powi e < 2 powi (53 + k)" .
    then have "e < 53 + k"
      using power_int_increasing [of "53 + k" e "2::real"] by (cases "e < 53 + k") auto
    then show ?thesis by simp
  qed
  define j where "j = nat (k - (e - 52))"
  have kj: "k = (e - 52) + int j" using ke by (simp add: j_def)
  have q: "x / 2 powi (e - 52) = of_int (m * 2 ^ j)"
    by (simp add: x kj power_int_add)
  have "of_int (round_half_even (x / 2 powi (e - 52))) * 2 powi (e - 52) = x"
    unfolding q round_half_even_of_int by (simp add: x kj power_int_add)
  then show ?thesis
    using r by (simp add: fl_def Let_def e_def [symmetric])
qed

lemma fl_of_int: "\<bar>n\<bar> < 2 ^ 53 \<Longrightarrow> fl (of_int n) = Fin (of_int n)"
proof -
  assume n: "\<bar>n\<bar> < 2 ^ 53"
  have "\<bar>real_of_int n\<bar> < 2 ^ 53"
    using n by (metis of_int_abs of_int_less_numeral_power_cancel_iff)
  also have "(2::real) ^ 53 \<le> 2 powi 1024" by simp
  finally have "\<bar>real_of_int n\<bar> < 2 powi 1024" .
  then show ?thesis
    using fl_exact [of "of_int n" n 0] n by simp
qed

lemma fl_nonneg:
  assumes "0 \<le> x"
  shows "fl x = PInf \<or> (\<exists>r. 0 \<le> r \<and> fl x = Fin r)"
proof -
  define u :: real where "u = 2 powi (binade \<bar>x\<bar> - 52)"
  have u: "0 < u" by (simp add: u_def)
  have "0 \<le> x / u" using assms u by simp
  then have "0 \<le> \<lfloor>x / u\<rfloor>" by simp
  then have "0 \<le> round_half_even (x / u)"
    using round_half_even_bounds [of "x / u"] by linarith
  then have r: "0 \<le> real_of_int (round_half_even (x / u)) * u" using u by simp
  show ?thesis
  proof (cases "2 powi 1024 \<le> \<bar>real_of_int (round_half_even (x / u)) * u\<bar>")
    case True
    then have "x \<noteq> 0" by (auto simp: round_half_even_of_int [of 0, simplified])
    then have "0 < x" using assms by simp
    then show ?thesis using True by (simp add: fl_def Let_def u_def)
  next
    case False
    then show ?thesis using r by (simp add: fl_def Let_def u_def)
  qed
qed

lemma fl_finite:
  assumes "\<bar>x\<bar> < 2 powi 1023"
  shows "\<exists>r. fl x = Fin r"
proof -
  define e where "e = binade \<bar>x\<bar>"
  define u :: real where "u = 2 powi (e - 52)"
  have u: "0 < u" by (simp add: u_def)
  have a: "\<bar>x\<bar> < 2 powi 1024"
    using assms power_int_increasing [of 1023 1024 "2::real"] by simp
  have xe: "\<bar>x\<bar> < 2 powi (e + 1)" using binade_upper(1) [OF a] by (simp add: e_def)
  have e: "e \<le> 1022"
  proof (rule ccontr)
    assume "\<not> e \<le> 1022"
    then have l: "1023 \<le> e" by simp
    then have "2 powi e \<le> \<bar>x\<bar>" using binade_lower [of "\<bar>x\<bar>"] by (simp add: e_def)
    moreover have "(2::real) powi 1023 \<le> 2 powi e" using l by (intro power_int_increasing) simp_all
    ultimately show False using assms by simp
  qed
  have "\<bar>x\<bar> / u < 2 powi (e + 1) / u" using xe u by (simp add: divide_strict_right_mono)
  also have "2 powi (e + 1) / u = 2 ^ 53"
    by (simp add: u_def flip: power_int_diff)
  finally have q: "\<bar>x / u\<bar> < 2 ^ 53" using u by simp
  have "x / u \<le> 2 ^ 53" "- (2 ^ 53) \<le> x / u" using q by linarith+
  then have "round_half_even (x / u) \<le> round_half_even (2 ^ 53)"
    "round_half_even (- (2 ^ 53)) \<le> round_half_even (x / u)"
    by (simp_all add: round_half_even_mono)
  moreover have "round_half_even (2 ^ 53) = 2 ^ 53" "round_half_even (- (2 ^ 53)) = - (2 ^ 53)"
    using round_half_even_of_int [of "2 ^ 53"] round_half_even_of_int [of "- (2 ^ 53)"] by simp_all
  ultimately have "\<bar>round_half_even (x / u)\<bar> \<le> 2 ^ 53" by simp
  then have "\<bar>real_of_int (round_half_even (x / u))\<bar> \<le> 2 ^ 53"
    by (metis of_int_abs of_int_le_numeral_power_cancel_iff)
  then have "\<bar>real_of_int (round_half_even (x / u)) * u\<bar> \<le> 2 ^ 53 * u"
    using u by (simp add: abs_mult mult_right_mono)
  also have "2 ^ 53 * u = 2 powi (e + 1)"
    by (simp add: u_def power_int_add power_int_diff)
  also have "\<dots> \<le> 2 powi 1023" using e by (intro power_int_increasing) simp_all
  also have "\<dots> < (2::real) powi 1024" by (intro power_int_strict_increasing) simp_all
  finally have "\<not> 2 powi 1024 \<le> \<bar>real_of_int (round_half_even (x / u)) * u\<bar>" by simp
  then show ?thesis by (simp add: fl_def Let_def e_def [symmetric] u_def [symmetric])
qed

lemma fl_overflow:
  assumes "2 powi 1024 \<le> x"
  shows "fl x = PInf"
proof -
  have x: "0 < x" using assms by (smt (verit) zero_less_power_int)
  have e: "binade \<bar>x\<bar> = 1024"
  proof (rule ccontr)
    assume n: "binade \<bar>x\<bar> \<noteq> 1024"
    then have l: "binade \<bar>x\<bar> \<le> 1023" using binade_range [of "\<bar>x\<bar>"] by simp
    then have "binade_from 2046 (- 1022) \<bar>x\<bar> < - 1022 + int 2046" by (simp add: binade_def)
    then have "\<bar>x\<bar> < 2 powi (binade \<bar>x\<bar> + 1)"
      unfolding binade_def by (rule binade_from_upper)
    moreover have "(2::real) powi (binade \<bar>x\<bar> + 1) \<le> 2 powi 1024"
      using l by (intro power_int_increasing) simp_all
    ultimately show False using assms x by simp
  qed
  define u :: real where "u = 2 powi 972"
  have u: "0 < u" by (simp add: u_def)
  have "2 ^ 52 * u = 2 powi 1024" by (simp add: u_def flip: power_add)
  then have "2 ^ 52 \<le> x / u" using assms u by (simp add: pos_le_divide_eq)
  then have "round_half_even (2 ^ 52) \<le> round_half_even (x / u)" by (rule round_half_even_mono)
  then have "2 ^ 52 \<le> round_half_even (x / u)"
    using round_half_even_of_int [of "2 ^ 52"] by simp
  then have "2 ^ 52 \<le> real_of_int (round_half_even (x / u))"
    by (metis numeral_power_le_of_int_cancel_iff)
  then have "2 ^ 52 * u \<le> real_of_int (round_half_even (x / u)) * u"
    using u by (simp add: mult_right_mono)
  then have "2 powi 1024 \<le> \<bar>real_of_int (round_half_even (x / u)) * u\<bar>"
    using \<open>2 ^ 52 * u = 2 powi 1024\<close> by simp
  moreover have "binade x = 1024" using e x by simp
  ultimately show ?thesis using x by (simp add: fl_def Let_def u_def)
qed

subsection \<open>Comparisons of floats\<close>

lemma fin_less_simps [simp]:
  "Fin a < Fin b \<longleftrightarrow> a < b" "Fin a \<le> Fin b \<longleftrightarrow> a \<le> b"
  "Fin a < PInf" "Fin a \<le> PInf" "\<not> PInf < x" "x \<le> PInf \<longleftrightarrow> x \<noteq> NaN"
  "\<not> x < NInf" "NInf \<le> x \<longleftrightarrow> x \<noteq> NaN"
  "\<not> NaN < x" "\<not> x < NaN" "\<not> NaN \<le> x" "\<not> x \<le> NaN"
  by (cases x; simp)+

lemma zero_less_simps [simp]:
  "0 < Fin a \<longleftrightarrow> 0 < a" "Fin a < 0 \<longleftrightarrow> a < 0" "0 \<le> Fin a \<longleftrightarrow> 0 \<le> a" "Fin a \<le> 0 \<longleftrightarrow> a \<le> 0"
  "Fin a = 0 \<longleftrightarrow> a = 0" "0 = Fin a \<longleftrightarrow> a = 0" "(0::pyfloat) < PInf" "PInf \<noteq> (0::pyfloat)"
  "NInf \<noteq> (0::pyfloat)" "NaN \<noteq> (0::pyfloat)" "\<not> (0::pyfloat) < 0" "(0::pyfloat) \<le> 0"
  by (auto simp: zero_pyfloat_def)

lemma less_irrefl_float [simp]: "\<not> (x::pyfloat) < x"
  by (cases x) simp_all

lemma less_not_le_float: "(x::pyfloat) < y \<Longrightarrow> \<not> y \<le> x"
  by (cases x; cases y) simp_all

lemma py_max_half_nonzero: "py_max (Fin (1 / 2)) y \<noteq> 0"
  by (cases y) (auto simp: py_max_def)

lemma py_div_half:
  "py_div x (py_max (Fin (1 / 2)) y) = Some (fl_div x (py_max (Fin (1 / 2)) y))"
  by (simp add: py_div_def py_max_half_nonzero)

subsection \<open>The store\<close>

lemma get_rec_upd_rec:
  "get_rec (upd_rec u f st) v = (if v = u then f (get_rec st u) else get_rec st v)"
  by (simp add: get_rec_def upd_rec_def)

lemma get_rec_setdefault: "get_rec (setdefault u st) v = get_rec st v"
  by (simp add: get_rec_def setdefault_def split: option.splits)

lemma get_rec_singleton [simp]: "get_rec [u \<mapsto> r] u = r"
  by (simp add: get_rec_def)

lemma upd_rec_setdefault: "upd_rec u f (setdefault u st) = upd_rec u f st"
  by (simp add: upd_rec_def setdefault_def get_rec_def)

lemma upd_rec_upd_rec: "upd_rec u f (upd_rec u g st) = upd_rec u (\<lambda>r. f (g r)) st"
  by (simp add: upd_rec_def get_rec_def)

lemma upd_rec_apply: "upd_rec u f st v = (if v = u then Some (f (get_rec st u)) else st v)"
  by (simp add: upd_rec_def)

lemma setdefault_apply: "setdefault u st v = (if v = u then Some (get_rec st u) else st v)"
  by (simp add: setdefault_def)

lemma stored_present: "last_wh (get_rec st unit) = Some lwh \<Longrightarrow> setdefault unit st = st"
  by (auto simp: get_rec_def empty_rec_def setdefault_def split: option.splits)

lemma hold_of_simps [simp]:
  "hold_until r = Some h \<Longrightarrow> hold_of r = h" "hold_until r = None \<Longrightarrow> hold_of r = 0"
  by (simp_all add: hold_of_def)

subsection \<open>Rounding to one decimal and clamping\<close>

lemma round_tenth_tenths: "round_tenth (of_int n / 10) = of_int n / 10"
  by (simp add: round_tenth_def round_half_even_of_int)

lemma round_tenth_0: "round_tenth 0 = 0"
  using round_tenth_tenths [of 0] by simp

lemma py_round1_0: "py_round1 0 = 0"
  by (simp add: zero_pyfloat_def round_tenth_0)

lemma clamp_watts_0: "clamp_watts cfg 0 = 0"
  by (simp add: clamp_watts_def)

lemma clamp_watts_pos:
  "0 < w \<Longrightarrow>
     clamp_watts cfg w = (if MIN_POWER_W cfg \<noteq> 0 then py_max w (MIN_POWER_W cfg) else w)"
  by (cases w) (simp_all add: clamp_watts_def Let_def)

lemma publish_power_0:
  "publish_power cfg unit 0 st =
     (upd_rec unit (\<lambda>r. r\<lparr>last_w := Some 0\<rparr>) st,
      [\<lparr>topic = power_topic unit, payload = Watts 0, qos = 0, retain = True\<rparr>])"
  by (simp add: publish_power_def clamp_watts_0 py_round1_0)

subsection \<open>The four branches of \<^verbatim>\<open>_update_from_energy\<close>\<close>

lemma reinit_eq:
  "reinit cfg unit wh_now ts_now st =
     (st(unit \<mapsto> (get_rec st unit)\<lparr>last_wh := Some wh_now, last_ts := Some ts_now,
                                    hold_until := Some 0, last_w := Some 0\<rparr>),
      [\<lparr>topic = power_topic unit, payload = Watts 0, qos = 0, retain = True\<rparr>])"
  by (simp add: reinit_def publish_power_0 upd_rec_upd_rec) (simp add: upd_rec_def)

lemma reinit_setdefault:
  "reinit cfg unit wh_now ts_now (setdefault unit st) = reinit cfg unit wh_now ts_now st"
  by (simp add: reinit_def upd_rec_setdefault)

lemma update_reinit:
  assumes "last_wh (get_rec st unit) = None \<or> last_ts (get_rec st unit) = None
           \<or> (\<exists>lwh. last_wh (get_rec st unit) = Some lwh \<and> wh_now < lwh)"
  shows "update_from_energy b cfg unit wh_now ts_now st = reinit cfg unit wh_now ts_now st"
  using assms
  by (auto simp: update_from_energy_def Let_def get_rec_setdefault reinit_setdefault
           split: option.splits)

lemma update_unchanged_held:
  assumes "last_wh (get_rec st unit) = Some wh_now" and "last_ts (get_rec st unit) = Some lts"
    and "\<not> (hold_of (get_rec st unit) \<noteq> 0 \<and> hold_of (get_rec st unit) < ts_now)"
  shows "update_from_energy b cfg unit wh_now ts_now st = (st, [])"
  using assms stored_present [OF assms(1)]
  by (auto simp: update_from_energy_def Let_def get_rec_setdefault)

lemma update_unchanged_expired:
  assumes "last_wh (get_rec st unit) = Some wh_now" and "last_ts (get_rec st unit) = Some lts"
    and "hold_of (get_rec st unit) \<noteq> 0" and "hold_of (get_rec st unit) < ts_now"
  shows "update_from_energy b cfg unit wh_now ts_now st =
           (st(unit \<mapsto> (get_rec st unit)\<lparr>hold_until := Some 0, last_w := Some 0\<rparr>),
            [\<lparr>topic = power_topic unit, payload = Watts 0, qos = 0, retain = True\<rparr>])"
  using assms stored_present [OF assms(1)]
  by (cases "get_rec st unit")
     (simp add: update_from_energy_def Let_def get_rec_setdefault publish_power_0
        upd_rec_apply get_rec_upd_rec fun_eq_iff)

lemma update_increase:
  assumes "last_wh (get_rec st unit) = Some lwh" and "last_ts (get_rec st unit) = Some lts"
    and "lwh < wh_now" and "float_of_int (wh_now - lwh) = Some dwh"
  shows "update_from_energy b cfg unit wh_now ts_now st =
           publish_power cfg unit
             (fl_div (fl_mul dwh (Fin 3600)) (py_max (Fin (1 / 2)) (fl_sub ts_now lts)))
             (upd_rec unit
                (\<lambda>r. r\<lparr>last_wh := Some wh_now, last_ts := Some ts_now,
                        hold_until := Some (fl_add ts_now
                          (compute_hold_seconds b cfg
                             (py_max (Fin (1 / 2)) (fl_sub ts_now lts))))\<rparr>) st)"
  using assms stored_present [OF assms(1)]
  by (simp add: update_from_energy_def Let_def get_rec_setdefault py_div_half)

lemma update_increase_overflow:
  assumes "last_wh (get_rec st unit) = Some lwh" and "last_ts (get_rec st unit) = Some lts"
    and "lwh < wh_now" and "float_of_int (wh_now - lwh) = None"
  shows "update_from_energy b cfg unit wh_now ts_now st = (st, [])"
  using assms stored_present [OF assms(1)]
  by (simp add: update_from_energy_def Let_def get_rec_setdefault)

lemma update_seq_held:
  assumes "last_wh (get_rec st unit) = Some wh_now" and "last_ts (get_rec st unit) = Some lts"
    and "\<forall>ts\<in>set tss. \<not> (hold_of (get_rec st unit) \<noteq> 0 \<and> hold_of (get_rec st unit) < ts)"
  shows "update_seq b cfg unit (map (\<lambda>ts. (wh_now, ts)) tss) st = (st, [])"
  using assms(3)
proof (induction tss)
  case Nil
  show ?case by simp
next
  case (Cons ts tss)
  have "\<not> (hold_of (get_rec st unit) \<noteq> 0 \<and> hold_of (get_rec st unit) < ts)"
    using Cons.prems by auto
  then have "update_from_energy b cfg unit wh_now ts st = (st, [])"
    by (rule update_unchanged_held [OF assms(1,2)])
  moreover have "update_seq b cfg unit (map (\<lambda>ts. (wh_now, ts)) tss) st = (st, [])"
    using Cons by simp
  ultimately show ?case by simp
qed

subsection \<open>Doubles that the examples use\<close>

lemma fl_numeral [simp]: "(numeral n :: int) < 2 ^ 53 \<Longrightarrow> fl (numeral n) = Fin (numeral n)"
  using fl_of_int [of "numeral n"] by simp

lemma fl_0 [simp]: "fl 0 = Fin 0"
  using fl_of_int [of 0] by simp

lemma fl_1 [simp]: "fl 1 = Fin 1"
  using fl_of_int [of 1] by simp

lemma fl_three_halves: "fl (3 / 2) = Fin (3 / 2)"
  using fl_exact [of "3 / 2" 3 "- 1"] by simp

lemma fl_sub_Fin [simp]: "fl_sub (Fin a) (Fin b) = fl (a - b)"
  by (simp add: fl_sub_def)

lemma float_of_int_small: "\<bar>n\<bar> < 2 ^ 53 \<Longrightarrow> float_of_int n = Some (Fin (of_int n))"
  by (simp add: float_of_int_def fl_of_int)

lemma float_of_int_numeral [simp]:
  "(numeral n :: int) < 2 ^ 53 \<Longrightarrow> float_of_int (numeral n) = Some (Fin (numeral n))"
  using float_of_int_small [of "numeral n"] by simp

lemma float_of_int_1 [simp]: "float_of_int 1 = Some (Fin 1)"
  using float_of_int_small [of 1] by simp

lemma float_of_int_overflow: "2 ^ 1024 \<le> n \<Longrightarrow> float_of_int n = None"
proof -
  assume "2 ^ 1024 \<le> n"
  then have "(2::real) powi 1024 \<le> of_int n"
    by (metis numeral_power_le_of_int_cancel_iff power_int_numeral)
  then show ?thesis by (simp add: float_of_int_def fl_overflow)
qed

lemma round_tenth_36000: "round_tenth 36000 = 36000"
  using round_tenth_tenths [of 360000] by simp

lemma round_tenth_7200: "round_tenth 7200 = 7200"
  using round_tenth_tenths [of 72000] by simp

lemma round_tenth_50000: "round_tenth 50000 = 50000"
  using round_tenth_tenths [of 500000] by simp

text \<open>The doubles nearest to 1000.1 and to 1001.4.\<close>

lemma fl_1000_1: "fl (10001 / 10) = Fin (1000 + 879609302221 / 8796093022208)"
proof -
  have "fl (10001 / 10) = Fin (of_int 8796972631510221 * 2 powi (9 - 52))"
    by (rule fl_eqI) (simp_all add: round_half_even_def)
  then show ?thesis by simp
qed

lemma fl_1001_4: "fl (5007 / 5) = Fin (8808407552439091 / 8796093022208)"
proof -
  have "fl (5007 / 5) = Fin (of_int 8808407552439091 * 2 powi (9 - 52))"
    by (rule fl_eqI) (simp_all add: round_half_even_def)
  then show ?thesis by simp
qed

text \<open>The first of them, less 1000.\<close>

lemma fl_tenth_example:
  "fl (879609302221 / 8796093022208) = Fin (879609302221 / 8796093022208)"
  using fl_exact [of "879609302221 / 8796093022208" 879609302221 "- 43"] by simp

subsection \<open>Energy increase: the published rate\<close>

lemma rate_published:
  assumes "last_wh (get_rec st unit) = Some lwh" and "last_ts (get_rec st unit) = Some lts"
    and "lwh < wh_now" and "float_of_int (wh_now - lwh) = Some dwh"
  shows "snd (update_from_energy b cfg unit wh_now ts_now st) =
           [\<lparr>topic = power_topic unit,
             payload = Watts (py_round1 (clamp_watts cfg
               (fl_div (fl_mul dwh (Fin 3600)) (py_max (Fin (1 / 2)) (fl_sub ts_now lts))))),
             qos = 0, retain = True\<rparr>]"
  by (simp add: update_increase [OF assms] publish_power_def Let_def)

text \<open>
  Claim C1, as the code has it. On a unit with a stored reading \<open>lwh\<close> taken at \<open>lts\<close>, an
  update with a larger reading whose increase \<^verbatim>\<open>float()\<close> converts (to \<open>dwh\<close>) publishes
  exactly one power message. In float arithmetic, with \<open>dt = max(0.5, ts_now - lts)\<close> and
  \<open>watts = (dwh * 3600.0) / dt\<close>, every operation rounded to a double, the value
  remembered as \<open>last_w\<close> is \<open>watts\<close> after the clamp of \<^verbatim>\<open>_publish_power\<close> (for a positive
  \<open>watts\<close>: raised to \<open>MIN_POWER_W\<close> when that is configured), and the payload is this value
  rounded to one decimal. The new reading and time are stored.
\<close>

theorem increase_publishes_rate:
  assumes "last_wh (get_rec st unit) = Some lwh" and "last_ts (get_rec st unit) = Some lts"
    and "lwh < wh_now" and "float_of_int (wh_now - lwh) = Some dwh"
  shows "let dt = py_max (Fin (1 / 2)) (fl_sub ts_now lts);
             watts = fl_div (fl_mul dwh (Fin 3600)) dt;
             w = clamp_watts cfg watts;
             (st', out) = update_from_energy b cfg unit wh_now ts_now st
         in out = [\<lparr>topic = power_topic unit, payload = Watts (py_round1 w), qos = 0,
                    retain = True\<rparr>]
            \<and> last_w (get_rec st' unit) = Some w
            \<and> last_wh (get_rec st' unit) = Some wh_now
            \<and> last_ts (get_rec st' unit) = Some ts_now
            \<and> (0 < watts \<longrightarrow>
                 w = (if MIN_POWER_W cfg \<noteq> 0 then py_max watts (MIN_POWER_W cfg) else watts))"
  by (simp add: update_increase [OF assms] publish_power_def Let_def clamp_watts_pos
        get_rec_upd_rec upd_rec_upd_rec)

text \<open>
  The two examples of the claim, with no minimum power configured: from the reading 100 at
  time 1000, the update (200, 1010) publishes 36000, and the update at the double nearest
  to 1000.1 with the reading 101 has \<open>dt = 0.5\<close> and publishes 7200.
\<close>

theorem increase_publishes_rate_witness:
  "last_wh (get_rec [''ac1'' \<mapsto> tracked_rec 100 1000 0] ''ac1'') = Some 100
   \<and> last_ts (get_rec [''ac1'' \<mapsto> tracked_rec 100 1000 0] ''ac1'') = Some (Fin 1000)
   \<and> (100::int) < 200 \<and> float_of_int (200 - 100) = Some (Fin 100)
   \<and> (100::int) < 101 \<and> float_of_int (101 - 100) = Some (Fin 1)
   \<and> snd (update_from_energy example_builtins default_config ''ac1'' 200 (Fin 1010)
             [''ac1'' \<mapsto> tracked_rec 100 1000 0]) =
       [\<lparr>topic = ''faikin/ac1/power_w'', payload = Watts (Fin 36000), qos = 0, retain = True\<rparr>]
   \<and> py_max (Fin (1 / 2)) (fl_sub (Fin (1000 + 879609302221 / 8796093022208)) (Fin 1000)) =
       Fin (1 / 2)
   \<and> snd (update_from_energy example_builtins default_config ''ac1'' 101
             (Fin (1000 + 879609302221 / 8796093022208))
             [''ac1'' \<mapsto> tracked_rec 100 1000 0]) =
       [\<lparr>topic = ''faikin/ac1/power_w'', payload = Watts (Fin 7200), qos = 0, retain = True\<rparr>]"
proof -
  let ?st = "[''ac1'' \<mapsto> tracked_rec 100 1000 0]"
  let ?t = "Fin (1000 + 879609302221 / 8796093022208)"
  have h1: "last_wh (get_rec ?st ''ac1'') = Some 100" by (simp add: tracked_rec_def)
  have h2: "last_ts (get_rec ?st ''ac1'') = Some (Fin 1000)" by (simp add: tracked_rec_def)
  have h3: "(100::int) < 200" "(100::int) < 101" by simp_all
  have f1: "float_of_int (200 - 100) = Some (Fin 100)" by simp
  have f2: "float_of_int (101 - 100) = Some (Fin 1)" by simp
  have d: "py_max (Fin (1 / 2)) (fl_sub ?t (Fin 1000)) = Fin (1 / 2)"
    by (simp add: fl_tenth_example py_max_def)
  have a: "snd (update_from_energy example_builtins default_config ''ac1'' 200 (Fin 1010) ?st) =
       [\<lparr>topic = ''faikin/ac1/power_w'', payload = Watts (Fin 36000), qos = 0, retain = True\<rparr>]"
    using increase_publishes_rate [OF h1 h2 h3(1) f1, where ts_now = "Fin 1010"
        and cfg = default_config and b = example_builtins]
    by (simp add: Let_def default_config_def power_topic_def py_max_def clamp_watts_def
          round_tenth_36000 split: prod.splits)
  have b: "snd (update_from_energy example_builtins default_config ''ac1'' 101 ?t ?st) =
       [\<lparr>topic = ''faikin/ac1/power_w'', payload = Watts (Fin 7200), qos = 0, retain = True\<rparr>]"
    using increase_publishes_rate [OF h1 h2 h3(2) f2, where ts_now = ?t
        and cfg = default_config and b = example_builtins]
    unfolding d
    by (simp add: Let_def default_config_def power_topic_def clamp_watts_def
          round_tenth_7200 split: prod.splits)
  show ?thesis using h1 h2 f1 f2 d a b by simp
qed

text \<open>
  With \<open>min_power_w: 50000\<close> configured, the update (200, 1010) after (100, 1000) publishes
  50000, not the rate 36000.
\<close>

theorem rate_not_published_under_floor:
  "map watts_of
     (snd (update_from_energy example_builtins (default_config\<lparr>MIN_POWER_W := Fin 50000\<rparr>)
             ''ac1'' 200 (Fin 1010) [''ac1'' \<mapsto> tracked_rec 100 1000 0])) = [Some (Fin 50000)]
   \<and> real_of_int (200 - 100) * 3600 / max (1 / 2) (1010 - 1000) = 36000
   \<and> (50000::real) \<noteq> 36000"
proof -
  let ?st = "[''ac1'' \<mapsto> tracked_rec 100 1000 0]"
  have h1: "last_wh (get_rec ?st ''ac1'') = Some 100" by (simp add: tracked_rec_def)
  have h2: "last_ts (get_rec ?st ''ac1'') = Some (Fin 1000)" by (simp add: tracked_rec_def)
  have h3: "(100::int) < 200" by simp
  have f1: "float_of_int (200 - 100) = Some (Fin 100)" by simp
  show ?thesis
    unfolding rate_published [OF h1 h2 h3 f1]
    by (simp add: clamp_watts_def default_config_def py_max_def round_tenth_50000 watts_of_def)
qed

text \<open>
  The rate is the float quotient, not the exact one: one watt-hour over 72000 seconds
  gives the double just above 0.05, which is published as 0.1.
\<close>

lemma fl_twentieth: "fl (1 / 20) = Fin (3602879701896397 / 72057594037927936)"
proof -
  have "fl (1 / 20) = Fin (of_int 7205759403792794 * 2 powi (- 5 - 52))"
    by (rule fl_eqI) (simp_all add: round_half_even_def)
  then show ?thesis by simp
qed

lemma rate_is_float_quotient:
  "map watts_of
     (snd (update_from_energy example_builtins default_config ''ac1'' 101 (Fin 73000)
             [''ac1'' \<mapsto> tracked_rec 100 1000 0])) = [Some (Fin (1 / 10))]"
proof -
  let ?st = "[''ac1'' \<mapsto> tracked_rec 100 1000 0]"
  have h1: "last_wh (get_rec ?st ''ac1'') = Some 100" by (simp add: tracked_rec_def)
  have h2: "last_ts (get_rec ?st ''ac1'') = Some (Fin 1000)" by (simp add: tracked_rec_def)
  have h3: "(100::int) < 101" by simp
  have f1: "float_of_int (101 - 100) = Some (Fin 1)" by simp
  have r: "round_tenth (3602879701896397 / 72057594037927936) = 1 / 10"
    by (simp add: round_tenth_def round_half_even_def)
  show ?thesis
    unfolding rate_published [OF h1 h2 h3 f1]
    by (simp add: clamp_watts_def default_config_def py_max_def fl_twentieth r watts_of_def)
qed

text \<open>
  An increase beyond the range of the doubles: \<^verbatim>\<open>float()\<close> raises, and nothing is stored
  or published.
\<close>

lemma huge_increase_raises:
  "update_from_energy example_builtins default_config ''ac1'' (100 + 2 ^ 1024) (Fin 1010)
     [''ac1'' \<mapsto> tracked_rec 100 1000 0] = ([''ac1'' \<mapsto> tracked_rec 100 1000 0], [])"
proof -
  let ?st = "[''ac1'' \<mapsto> tracked_rec 100 1000 0]"
  have h1: "last_wh (get_rec ?st ''ac1'') = Some 100" by (simp add: tracked_rec_def)
  have h2: "last_ts (get_rec ?st ''ac1'') = Some (Fin 1000)" by (simp add: tracked_rec_def)
  have h3: "(100::int) < 100 + 2 ^ 1024" by simp
  have f: "float_of_int (100 + 2 ^ 1024 - 100) = None"
    by (rule float_of_int_overflow) simp
  show ?thesis by (rule update_increase_overflow [OF h1 h2 h3 f])
qed

subsection \<open>Energy increase: the hold window\<close>

lemma hold_until_after_increase:
  assumes "last_wh (get_rec st unit) = Some lwh" and "last_ts (get_rec st unit) = Some lts"
    and "lwh < wh_now" and "float_of_int (wh_now - lwh) = Some dwh"
  shows "hold_until (get_rec (fst (update_from_energy b cfg unit wh_now ts_now st)) unit) =
           Some (fl_add ts_now
             (compute_hold_seconds b cfg (py_max (Fin (1 / 2)) (fl_sub ts_now lts))))"
  by (simp add: update_increase [OF assms] publish_power_def Let_def get_rec_upd_rec)

text \<open>
  Claim C3, as the code has it. After an update that sees the reading increase by an
  amount \<^verbatim>\<open>float()\<close> converts, with \<open>dt = max(0.5, ts_now - lts)\<close> and every operation a
  float operation: when \<open>MARGIN_FACTOR\<close> is not \<^verbatim>\<open>None\<close> and converts to the float \<open>f\<close>, the
  hold lasts \<open>max(0.0, dt * (1.0 + f))\<close>; when it is \<^verbatim>\<open>None\<close> or does not convert, the hold
  lasts \<open>max(0.0, dt + MARGIN_SECONDS_DEFAULT)\<close>; in both cases \<open>hold_until\<close> becomes the
  float sum of \<open>ts_now\<close> and that duration.
\<close>

theorem increase_sets_hold:
  assumes "last_wh (get_rec st unit) = Some lwh" and "last_ts (get_rec st unit) = Some lts"
    and "lwh < wh_now" and "float_of_int (wh_now - lwh) = Some dwh"
  shows "let dt = py_max (Fin (1 / 2)) (fl_sub ts_now lts);
             st' = fst (update_from_energy b cfg unit wh_now ts_now st)
         in (MARGIN_FACTOR cfg \<noteq> JNull \<and> py_float b (MARGIN_FACTOR cfg) = Some f \<longrightarrow>
                 compute_hold_seconds b cfg dt = py_max 0 (fl_mul dt (fl_add (Fin 1) f))
                 \<and> hold_until (get_rec st' unit) =
                     Some (fl_add ts_now (py_max 0 (fl_mul dt (fl_add (Fin 1) f)))))
          \<and> (MARGIN_FACTOR cfg = JNull \<or> py_float b (MARGIN_FACTOR cfg) = None \<longrightarrow>
                 compute_hold_seconds b cfg dt =
                   py_max 0 (fl_add dt (MARGIN_SECONDS_DEFAULT cfg))
                 \<and> hold_until (get_rec st' unit) =
                     Some (fl_add ts_now (py_max 0 (fl_add dt (MARGIN_SECONDS_DEFAULT cfg)))))"
  unfolding Let_def hold_until_after_increase [OF assms]
  by (auto simp: compute_hold_seconds_def)

text \<open>
  With \<open>dt = 10\<close> and the factor 0.5 the deadline is the tick time plus 15; with no factor
  and the margin of 300 seconds it is the tick time plus 310.
\<close>

theorem increase_sets_hold_witness:
  "last_wh (get_rec [''ac1'' \<mapsto> tracked_rec 100 1000 0] ''ac1'') = Some 100
   \<and> last_ts (get_rec [''ac1'' \<mapsto> tracked_rec 100 1000 0] ''ac1'') = Some (Fin 1000)
   \<and> (100::int) < 200 \<and> float_of_int (200 - 100) = Some (Fin 100)
   \<and> MARGIN_FACTOR default_config \<noteq> JNull
   \<and> py_float example_builtins (MARGIN_FACTOR default_config) = Some (Fin (1 / 2))
   \<and> py_max (Fin (1 / 2)) (fl_sub (Fin 1010) (Fin 1000)) = Fin 10
   \<and> hold_until (get_rec (fst (update_from_energy example_builtins default_config ''ac1'' 200
        (Fin 1010) [''ac1'' \<mapsto> tracked_rec 100 1000 0])) ''ac1'') = Some (Fin 1025)
   \<and> MARGIN_FACTOR (default_config\<lparr>MARGIN_FACTOR := JNull\<rparr>) = JNull
   \<and> hold_until (get_rec (fst (update_from_energy example_builtins
        (default_config\<lparr>MARGIN_FACTOR := JNull\<rparr>) ''ac1'' 200 (Fin 1010)
        [''ac1'' \<mapsto> tracked_rec 100 1000 0])) ''ac1'') = Some (Fin 1320)"
proof -
  let ?st = "[''ac1'' \<mapsto> tracked_rec 100 1000 0]"
  have h1: "last_wh (get_rec ?st ''ac1'') = Some 100" by (simp add: tracked_rec_def)
  have h2: "last_ts (get_rec ?st ''ac1'') = Some (Fin 1000)" by (simp add: tracked_rec_def)
  have h3: "(100::int) < 200" by simp
  have f1: "float_of_int (200 - 100) = Some (Fin 100)" by simp
  have d: "py_max (Fin (1 / 2)) (fl_sub (Fin 1010) (Fin 1000)) = Fin 10"
    by (simp add: py_max_def)
  show ?thesis
    using h1 h2 f1 d
      increase_sets_hold [OF h1 h2 h3 f1, where ts_now = "Fin 1010" and cfg = default_config
        and b = example_builtins and f = "Fin (1 / 2)"]
      increase_sets_hold [OF h1 h2 h3 f1, where ts_now = "Fin 1010"
        and cfg = "default_config\<lparr>MARGIN_FACTOR := JNull\<rparr>" and b = example_builtins
        and f = 0]
    by (simp add: Let_def default_config_def py_max_def fl_three_halves)
qed

text \<open>
  The deadline is a float sum, not the exact one: a tick at the double nearest to 1001.4,
  after the reading at 1000, has \<open>dt * 1.5\<close> exact, but its sum with the tick time lies
  halfway between two doubles and is stored as 1003.5. And an increase beyond the range of
  the doubles leaves the deadline as it was.
\<close>

lemma fl_dt_example:
  "fl (12314530231091 / 8796093022208) = Fin (12314530231091 / 8796093022208)"
  using fl_exact [of "12314530231091 / 8796093022208" 12314530231091 "- 43"] by simp

lemma fl_hold_example:
  "fl (36943590693273 / 17592186044416) = Fin (36943590693273 / 17592186044416)"
  using fl_exact [of "36943590693273 / 17592186044416" 36943590693273 "- 44"] by simp

lemma fl_deadline_example: "fl (17653758695571455 / 17592186044416) = Fin (2007 / 2)"
proof -
  have "fl (17653758695571455 / 17592186044416) =
          Fin (of_int 8826879347785728 * 2 powi (9 - 52))"
    by (rule fl_eqI) (simp_all add: round_half_even_def)
  then show ?thesis by simp
qed

theorem hold_deadline_is_float_sum:
  "hold_until (get_rec (fst (update_from_energy example_builtins default_config ''ac1'' 200
      (Fin (8808407552439091 / 8796093022208)) [''ac1'' \<mapsto> tracked_rec 100 1000 0])) ''ac1'') =
     Some (Fin (2007 / 2))
   \<and> 8808407552439091 / 8796093022208
       + max 0 (max (1 / 2) (8808407552439091 / 8796093022208 - 1000) * (1 + 1 / 2))
       < (2007 / 2 :: real)
   \<and> hold_until (get_rec (fst (update_from_energy example_builtins default_config ''ac1''
        (100 + 2 ^ 1024) (Fin 1010) [''ac1'' \<mapsto> tracked_rec 100 1000 0])) ''ac1'') =
       Some (Fin 0)"
proof -
  let ?st = "[''ac1'' \<mapsto> tracked_rec 100 1000 0]"
  have h1: "last_wh (get_rec ?st ''ac1'') = Some 100" by (simp add: tracked_rec_def)
  have h2: "last_ts (get_rec ?st ''ac1'') = Some (Fin 1000)" by (simp add: tracked_rec_def)
  have h3: "(100::int) < 200" by simp
  have f1: "float_of_int (200 - 100) = Some (Fin 100)" by simp
  have a: "hold_until (get_rec (fst (update_from_energy example_builtins default_config ''ac1'' 200
      (Fin (8808407552439091 / 8796093022208)) ?st)) ''ac1'') = Some (Fin (2007 / 2))"
    unfolding hold_until_after_increase [OF h1 h2 h3 f1]
    by (simp add: compute_hold_seconds_def default_config_def py_max_def fl_dt_example
          fl_three_halves fl_hold_example fl_deadline_example)
  have b: "hold_until (get_rec (fst (update_from_energy example_builtins default_config ''ac1''
        (100 + 2 ^ 1024) (Fin 1010) ?st)) ''ac1'') = Some (Fin 0)"
    unfolding huge_increase_raises by (simp add: tracked_rec_def)
  have c: "8808407552439091 / 8796093022208
       + max 0 (max (1 / 2) (8808407552439091 / 8796093022208 - 1000) * (1 + 1 / 2))
       < (2007 / 2 :: real)"
    by simp
  show ?thesis using a b c by blast
qed

subsection \<open>Unchanged energy: expiry of the hold\<close>

text \<open>
  Claim C4. On a unit whose stored reading equals the new one: when the hold deadline is
  nonzero and the time is past it, exactly one message carrying 0 is published and
  \<open>hold_until\<close> becomes 0 (the reading and its time stay); otherwise nothing is published
  and the store is unchanged. Hence any run of same-energy updates at times that are not
  past a nonzero deadline publishes nothing and leaves the store as it was.
\<close>

theorem unchanged_energy_expires_or_holds:
  assumes "last_wh (get_rec st unit) = Some wh_now" and "last_ts (get_rec st unit) = Some lts"
  shows "(hold_of (get_rec st unit) \<noteq> 0 \<and> hold_of (get_rec st unit) < ts_now \<longrightarrow>
            update_from_energy b cfg unit wh_now ts_now st =
              (st(unit \<mapsto> (get_rec st unit)\<lparr>hold_until := Some 0, last_w := Some 0\<rparr>),
               [\<lparr>topic = power_topic unit, payload = Watts 0, qos = 0, retain = True\<rparr>]))
       \<and> (\<not> (hold_of (get_rec st unit) \<noteq> 0 \<and> hold_of (get_rec st unit) < ts_now) \<longrightarrow>
            update_from_energy b cfg unit wh_now ts_now st = (st, []))
       \<and> ((\<forall>ts\<in>set tss. \<not> (hold_of (get_rec st unit) \<noteq> 0 \<and> hold_of (get_rec st unit) < ts)) \<longrightarrow>
            update_seq b cfg unit (map (\<lambda>ts. (wh_now, ts)) tss) st = (st, []))"
  using update_unchanged_expired [OF assms] update_unchanged_held [OF assms]
    update_seq_held [OF assms]
  by blast

text \<open>
  The example of the hold of 15 seconds set at time 1010: the same reading at 1026
  publishes 0 and clears the hold; at 1024 nothing happens; the same reading at 1011, 1024
  and 1025 publishes nothing.
\<close>

theorem unchanged_energy_expires_or_holds_witness:
  "last_wh (get_rec [''ac1'' \<mapsto> tracked_rec 200 1010 1025] ''ac1'') = Some 200
   \<and> last_ts (get_rec [''ac1'' \<mapsto> tracked_rec 200 1010 1025] ''ac1'') = Some (Fin 1010)
   \<and> hold_of (get_rec [''ac1'' \<mapsto> tracked_rec 200 1010 1025] ''ac1'') \<noteq> 0
   \<and> hold_of (get_rec [''ac1'' \<mapsto> tracked_rec 200 1010 1025] ''ac1'') < Fin 1026
   \<and> update_from_energy example_builtins default_config ''ac1'' 200 (Fin 1026)
        [''ac1'' \<mapsto> tracked_rec 200 1010 1025] =
       ([''ac1'' \<mapsto> tracked_rec 200 1010 0],
        [\<lparr>topic = ''faikin/ac1/power_w'', payload = Watts 0, qos = 0, retain = True\<rparr>])
   \<and> \<not> (hold_of (get_rec [''ac1'' \<mapsto> tracked_rec 200 1010 1025] ''ac1'') \<noteq> 0
         \<and> hold_of (get_rec [''ac1'' \<mapsto> tracked_rec 200 1010 1025] ''ac1'') < Fin 1024)
   \<and> update_from_energy example_builtins default_config ''ac1'' 200 (Fin 1024)
        [''ac1'' \<mapsto> tracked_rec 200 1010 1025] = ([''ac1'' \<mapsto> tracked_rec 200 1010 1025], [])
   \<and> list_all (\<lambda>ts. \<not> (hold_of (get_rec [''ac1'' \<mapsto> tracked_rec 200 1010 1025] ''ac1'') \<noteq> 0
            \<and> hold_of (get_rec [''ac1'' \<mapsto> tracked_rec 200 1010 1025] ''ac1'') < ts))
         [Fin 1011, Fin 1024, Fin 1025]
   \<and> update_seq example_builtins default_config ''ac1''
        [(200, Fin 1011), (200, Fin 1024), (200, Fin 1025)]
        [''ac1'' \<mapsto> tracked_rec 200 1010 1025] = ([''ac1'' \<mapsto> tracked_rec 200 1010 1025], [])"
proof -
  let ?st = "[''ac1'' \<mapsto> tracked_rec 200 1010 1025]"
  have h1: "last_wh (get_rec ?st ''ac1'') = Some 200" by (simp add: tracked_rec_def)
  have h2: "last_ts (get_rec ?st ''ac1'') = Some (Fin 1010)" by (simp add: tracked_rec_def)
  have h3: "hold_of (get_rec ?st ''ac1'') = Fin 1025" by (simp add: tracked_rec_def)
  show ?thesis
    using h1 h2 h3
      unchanged_energy_expires_or_holds [OF h1 h2, where ts_now = "Fin 1026"
        and b = example_builtins and cfg = default_config and tss = "[]"]
      unchanged_energy_expires_or_holds [OF h1 h2, where ts_now = "Fin 1024"
        and b = example_builtins and cfg = default_config
        and tss = "[Fin 1011, Fin 1024, Fin 1025]"]
    by (simp add: tracked_rec_def power_topic_def zero_pyfloat_def)
qed

subsection \<open>First observation and counter regression\<close>

text \<open>
  Claim C5. When the unit has no stored reading (or no stored time), and when the new
  reading is below the stored one, the update does the same thing: it stores the new
  reading and time, sets \<open>hold_until\<close> to 0 and publishes exactly one message, carrying 0.
\<close>

theorem first_or_regression_reinitialises:
  assumes "last_wh (get_rec st unit) = None \<or> last_ts (get_rec st unit) = None
           \<or> (\<exists>lwh. last_wh (get_rec st unit) = Some lwh \<and> wh_now < lwh)"
  shows "update_from_energy b cfg unit wh_now ts_now st =
           (st(unit \<mapsto> (get_rec st unit)\<lparr>last_wh := Some wh_now, last_ts := Some ts_now,
                                          hold_until := Some 0, last_w := Some 0\<rparr>),
            [\<lparr>topic = power_topic unit, payload = Watts 0, qos = 0, retain = True\<rparr>])"
  by (simp only: update_reinit [OF assms] reinit_eq)

text \<open>
  A unit never seen before, and the reset example: from the reading 100, the update
  (50, 2000) publishes 0 and makes (50, 2000) the baseline.
\<close>

theorem first_or_regression_reinitialises_witness:
  "last_wh (get_rec Map.empty ''ac1'') = None
   \<and> update_from_energy example_builtins default_config ''ac1'' 100 (Fin 1000) Map.empty =
       ([''ac1'' \<mapsto> \<lparr>last_wh = Some 100, last_ts = Some (Fin 1000), hold_until = Some 0,
                       last_w = Some 0, discovered = None\<rparr>],
        [\<lparr>topic = ''faikin/ac1/power_w'', payload = Watts 0, qos = 0, retain = True\<rparr>])
   \<and> (\<exists>lwh. last_wh (get_rec [''ac1'' \<mapsto> tracked_rec 100 1000 1015] ''ac1'') = Some lwh \<and> 50 < lwh)
   \<and> update_from_energy example_builtins default_config ''ac1'' 50 (Fin 2000)
         [''ac1'' \<mapsto> tracked_rec 100 1000 1015] =
       ([''ac1'' \<mapsto> tracked_rec 50 2000 0],
        [\<lparr>topic = ''faikin/ac1/power_w'', payload = Watts 0, qos = 0, retain = True\<rparr>])"
proof -
  have h1: "last_wh (get_rec Map.empty ''ac1'') = None"
    by (simp add: get_rec_def empty_rec_def)
  have h2: "\<exists>lwh. last_wh (get_rec [''ac1'' \<mapsto> tracked_rec 100 1000 1015] ''ac1'') = Some lwh \<and> 50 < lwh"
    by (simp add: tracked_rec_def)
  show ?thesis
    using h1 h2
      first_or_regression_reinitialises [where st = Map.empty and unit = "''ac1''"
        and wh_now = 100 and b = example_builtins and cfg = default_config
        and ts_now = "Fin 1000"]
      first_or_regression_reinitialises [where st = "[''ac1'' \<mapsto> tracked_rec 100 1000 1015]"
        and unit = "''ac1''" and wh_now = 50 and b = example_builtins and cfg = default_config
        and ts_now = "Fin 2000"]
    by (simp add: get_rec_def empty_rec_def tracked_rec_def power_topic_def zero_pyfloat_def)
qed

subsection \<open>Discovery and the handlers\<close>

lemma discovery_eq:
  "discovery cfg unit d c st =
     (if discovered (get_rec st unit) = Some True then (setdefault unit st, [])
      else (upd_rec unit (\<lambda>r. r\<lparr>discovered := Some True\<rparr>) st, [discovery_msg cfg unit d c]))"
  by (simp add: discovery_def Let_def get_rec_setdefault upd_rec_setdefault)

lemma discovery_known:
  "discovered (get_rec st unit) = Some True \<Longrightarrow> discovery cfg unit d c st = (st, [])"
  by (auto simp: discovery_eq setdefault_def get_rec_def empty_rec_def split: option.splits)

lemma discovery_fields:
  "last_wh (get_rec (fst (discovery cfg unit d c st)) v) = last_wh (get_rec st v)"
  "last_ts (get_rec (fst (discovery cfg unit d c st)) v) = last_ts (get_rec st v)"
  "hold_until (get_rec (fst (discovery cfg unit d c st)) v) = hold_until (get_rec st v)"
  "last_w (get_rec (fst (discovery cfg unit d c st)) v) = last_w (get_rec st v)"
  by (simp_all add: discovery_eq get_rec_setdefault get_rec_upd_rec)

lemma discovery_hold_of:
  "hold_of (get_rec (fst (discovery cfg unit d c st)) v) = hold_of (get_rec st v)"
  by (simp add: hold_of_def discovery_fields)

lemma discovery_announced:
  "discovered (get_rec (fst (discovery cfg unit d c st)) unit) = Some True"
  by (simp add: discovery_eq get_rec_setdefault get_rec_upd_rec)

lemma watts_of_discovery_msg: "watts_of (discovery_msg cfg unit d c) = None"
  by (simp add: discovery_msg_def watts_of_def)

lemma discovery_no_watts: "m \<in> set (snd (discovery cfg unit d c st)) \<Longrightarrow> watts_of m = None"
  by (auto simp: discovery_eq watts_of_discovery_msg split: if_splits)

lemma discovery_other: "v \<noteq> unit \<Longrightarrow> fst (discovery cfg unit d c st) v = st v"
  by (simp add: discovery_eq setdefault_apply upd_rec_apply)

lemma publish_power_other: "v \<noteq> unit \<Longrightarrow> fst (publish_power cfg unit w st) v = st v"
  by (simp add: publish_power_def Let_def upd_rec_apply)

lemma reinit_other: "v \<noteq> unit \<Longrightarrow> fst (reinit cfg unit wh ts st) v = st v"
  by (simp add: reinit_def publish_power_other upd_rec_apply)

lemma update_from_energy_other:
  "v \<noteq> unit \<Longrightarrow> fst (update_from_energy b cfg unit wh ts st) v = st v"
  by (auto simp: update_from_energy_def Let_def reinit_def publish_power_def upd_rec_apply
        setdefault_apply split: option.splits prod.splits)

lemma topic_unit_example [simp]: "topic_unit (''state/'' @ u) = Some u"
  by (simp add: topic_unit_def)

lemma tick_unparsed:
  assumes "topic_unit t = Some unit" and "parse_wh b p = None"
  shows "faikin_energy_tick b cfg t p now st =
           discovery cfg unit (device_id b p unit) (Some (''http://'' @ unit @ ''.local/'')) st"
  using assms by (simp add: faikin_energy_tick_def split: prod.splits)

lemma tick_parsed:
  assumes "topic_unit t = Some unit" and "parse_wh b p = Some wh"
  shows "faikin_energy_tick b cfg t p now st =
           (let (st1, out1) = discovery cfg unit (device_id b p unit)
                                (Some (''http://'' @ unit @ ''.local/'')) st;
                (st2, out2) = update_from_energy b cfg unit wh now st1
            in (st2, out1 @ out2))"
  using assms by (simp add: faikin_energy_tick_def split: prod.splits)

lemma tick_no_unit: "topic_unit t = None \<Longrightarrow> faikin_energy_tick b cfg t p now st = (st, [])"
  by (simp add: faikin_energy_tick_def)

lemma comp_disabled: "\<not> ENABLE_COMP_FALLBACK cfg \<Longrightarrow> faikin_comp_estimate b cfg t p now st = (st, [])"
  by (simp add: faikin_comp_estimate_def)

lemma comp_no_unit: "topic_unit t = None \<Longrightarrow> faikin_comp_estimate b cfg t p now st = (st, [])"
  by (simp add: faikin_comp_estimate_def)

lemma comp_held:
  assumes "ENABLE_COMP_FALLBACK cfg" and "topic_unit t = Some unit"
    and "hold_of (get_rec st unit) \<noteq> 0" and "now \<le> hold_of (get_rec st unit)"
  shows "faikin_comp_estimate b cfg t p now st =
           discovery cfg unit (device_id b p unit) (Some (''http://'' @ unit @ ''.local/'')) st"
proof -
  obtain st1 out1 where d: "discovery cfg unit (device_id b p unit)
      (Some (''http://'' @ unit @ ''.local/'')) st = (st1, out1)"
    by (cases "discovery cfg unit (device_id b p unit) (Some (''http://'' @ unit @ ''.local/'')) st")
  have "hold_of (get_rec st1 unit) = hold_of (get_rec st unit)"
    using discovery_hold_of [of cfg unit "device_id b p unit"
        "Some (''http://'' @ unit @ ''.local/'')" st unit] d by simp
  then show ?thesis
    using assms d by (simp add: faikin_comp_estimate_def Let_def)
qed

lemma comp_free:
  assumes "ENABLE_COMP_FALLBACK cfg" and "topic_unit t = Some unit"
    and "\<not> (hold_of (get_rec st unit) \<noteq> 0 \<and> now \<le> hold_of (get_rec st unit))"
  shows "faikin_comp_estimate b cfg t p now st =
           (let (st1, out1) = discovery cfg unit (device_id b p unit)
                                (Some (''http://'' @ unit @ ''.local/'')) st;
                (st2, out2) = publish_power cfg unit
                   (estimate_power_from_comp (Some (fst (parse_comp_fan b p)))
                      (snd (parse_comp_fan b p))) st1
            in (st2, out1 @ out2))"
proof -
  obtain st1 out1 where d: "discovery cfg unit (device_id b p unit)
      (Some (''http://'' @ unit @ ''.local/'')) st = (st1, out1)"
    by (cases "discovery cfg unit (device_id b p unit) (Some (''http://'' @ unit @ ''.local/'')) st")
  have "hold_of (get_rec st1 unit) = hold_of (get_rec st unit)"
    using discovery_hold_of [of cfg unit "device_id b p unit"
        "Some (''http://'' @ unit @ ''.local/'')" st unit] d by simp
  then show ?thesis
    using assms d by (auto simp: faikin_comp_estimate_def Let_def split: prod.splits)
qed

lemma comp_held_no_watts:
  assumes "topic_unit t = Some unit"
    and "hold_of (get_rec st unit) \<noteq> 0" and "now \<le> hold_of (get_rec st unit)"
    and "m \<in> set (snd (faikin_comp_estimate b cfg t p now st))"
  shows "watts_of m = None"
proof (cases "ENABLE_COMP_FALLBACK cfg")
  case True
  then show ?thesis
    using assms(4) discovery_no_watts by (simp add: comp_held [OF True assms(1-3)])
next
  case False
  then show ?thesis using assms(4) by (simp add: comp_disabled)
qed

subsection \<open>The fallback inside the hold window\<close>

text \<open>
  Claim C7. When the topic names a unit whose \<open>hold_until\<close> is nonzero and the clock
  reading is at most \<open>hold_until\<close>, \<^verbatim>\<open>faikin_comp_estimate\<close> publishes no power message,
  whatever the payload holds and whether or not the fallback is enabled.
\<close>

theorem fallback_suppressed_in_hold:
  assumes "topic_unit t = Some unit"
    and "hold_of (get_rec st unit) \<noteq> 0" and "now \<le> hold_of (get_rec st unit)"
  shows "\<forall>m\<in>set (snd (faikin_comp_estimate b cfg t p now st)). watts_of m = None"
  using comp_held_no_watts [OF assms] by blast

text \<open>A compressor reading arriving at 1020 for a unit holding until 1025.\<close>

theorem fallback_suppressed_in_hold_witness:
  "topic_unit ''state/ac1'' = Some ''ac1''
   \<and> hold_of (get_rec [''ac1'' \<mapsto> tracked_rec 200 1010 1025] ''ac1'') \<noteq> 0
   \<and> Fin 1020 \<le> hold_of (get_rec [''ac1'' \<mapsto> tracked_rec 200 1010 1025] ''ac1'')
   \<and> list_all (\<lambda>m. watts_of m = None)
         (snd (faikin_comp_estimate example_builtins
            (default_config\<lparr>ENABLE_COMP_FALLBACK := True\<rparr>) ''state/ac1''
            [''comp'' \<mapsto> JInt 40] (Fin 1020) [''ac1'' \<mapsto> tracked_rec 200 1010 1025]))"
proof -
  let ?st = "[''ac1'' \<mapsto> tracked_rec 200 1010 1025]"
  have h1: "topic_unit ''state/ac1'' = Some ''ac1''" by (simp add: topic_unit_def)
  have h2: "hold_of (get_rec ?st ''ac1'') \<noteq> 0" by (simp add: tracked_rec_def)
  have h3: "Fin 1020 \<le> hold_of (get_rec ?st ''ac1'')" by (simp add: tracked_rec_def)
  show ?thesis
    using h1 h2 h3 fallback_suppressed_in_hold [OF h1 h2 h3]
    by (simp add: list_all_iff)
qed

subsection \<open>The right end of the hold window\<close>

lemma watts_of_power_msg:
  "watts_of \<lparr>topic = tp, payload = Watts w, qos = q, retain = r\<rparr> = Some w"
  by (simp add: watts_of_def)

lemma comp_free_publishes:
  assumes "ENABLE_COMP_FALLBACK cfg" and "topic_unit t = Some unit"
    and "\<not> (hold_of (get_rec st unit) \<noteq> 0 \<and> now \<le> hold_of (get_rec st unit))"
  shows "\<exists>m\<in>set (snd (faikin_comp_estimate b cfg t p now st)). watts_of m \<noteq> None"
  by (simp add: comp_free [OF assms] publish_power_def Let_def watts_of_power_msg
        split: prod.splits)

text \<open>
  Claim C10. At the instant equal to a nonzero \<open>hold_until\<close> both handlers still hold: an
  energy update with the stored reading publishes nothing, and the fallback publishes no
  power message. At any later instant both have let go: the energy update publishes 0, and
  the fallback, when enabled, publishes its estimate. (A deadline that is a NaN equals no
  instant: no float compares equal to it.)
\<close>

theorem hold_window_closed_on_the_right:
  assumes "topic_unit t = Some unit"
    and "last_wh (get_rec st unit) = Some wh" and "last_ts (get_rec st unit) = Some lts"
    and "hold_until (get_rec st unit) = Some h" and "h \<noteq> 0" and "h \<noteq> NaN"
  shows "update_from_energy b cfg unit wh h st = (st, [])
       \<and> (\<forall>m\<in>set (snd (faikin_comp_estimate b cfg t p h st)). watts_of m = None)
       \<and> (h < now \<longrightarrow>
            map watts_of (snd (update_from_energy b cfg unit wh now st)) = [Some 0]
            \<and> (ENABLE_COMP_FALLBACK cfg \<longrightarrow>
                 (\<exists>m\<in>set (snd (faikin_comp_estimate b cfg t p now st)). watts_of m \<noteq> None)))"
proof -
  have hh: "hold_of (get_rec st unit) = h" using assms(4) by simp
  have le: "h \<le> h" using assms(6) by (cases h) simp_all
  have a: "update_from_energy b cfg unit wh h st = (st, [])"
    by (rule update_unchanged_held [OF assms(2,3)]) (simp add: hh less_irrefl_float)
  have b: "\<forall>m\<in>set (snd (faikin_comp_estimate b cfg t p h st)). watts_of m = None"
    using comp_held_no_watts [OF assms(1), of st h _ b cfg p] assms(5) le by (simp add: hh)
  have c: "map watts_of (snd (update_from_energy b cfg unit wh now st)) = [Some 0]"
    if "h < now"
    using update_unchanged_expired [OF assms(2,3), of now b cfg] that assms(5)
    by (simp add: hh watts_of_power_msg)
  have d: "\<exists>m\<in>set (snd (faikin_comp_estimate b cfg t p now st)). watts_of m \<noteq> None"
    if "h < now" "ENABLE_COMP_FALLBACK cfg"
    using that less_not_le_float [OF that(1)]
    by (intro comp_free_publishes [OF that(2) assms(1)]) (simp add: hh)
  show ?thesis using a b c d by blast
qed

text \<open>A unit holding until 1025, asked at 1025 and at 1026, with the fallback enabled.\<close>

theorem hold_window_closed_on_the_right_witness:
  "topic_unit ''state/ac1'' = Some ''ac1''
   \<and> last_wh (get_rec [''ac1'' \<mapsto> tracked_rec 200 1010 1025] ''ac1'') = Some 200
   \<and> last_ts (get_rec [''ac1'' \<mapsto> tracked_rec 200 1010 1025] ''ac1'') = Some (Fin 1010)
   \<and> hold_until (get_rec [''ac1'' \<mapsto> tracked_rec 200 1010 1025] ''ac1'') = Some (Fin 1025)
   \<and> Fin 1025 \<noteq> 0 \<and> Fin 1025 \<noteq> NaN \<and> Fin 1025 < Fin 1026
   \<and> ENABLE_COMP_FALLBACK (default_config\<lparr>ENABLE_COMP_FALLBACK := True\<rparr>)
   \<and> update_from_energy example_builtins (default_config\<lparr>ENABLE_COMP_FALLBACK := True\<rparr>)
        ''ac1'' 200 (Fin 1025) [''ac1'' \<mapsto> tracked_rec 200 1010 1025] =
       ([''ac1'' \<mapsto> tracked_rec 200 1010 1025], [])
   \<and> list_all (\<lambda>m. watts_of m = None)
         (snd (faikin_comp_estimate example_builtins
            (default_config\<lparr>ENABLE_COMP_FALLBACK := True\<rparr>) ''state/ac1''
            [''comp'' \<mapsto> JInt 40] (Fin 1025) [''ac1'' \<mapsto> tracked_rec 200 1010 1025]))
   \<and> map watts_of (snd (update_from_energy example_builtins
          (default_config\<lparr>ENABLE_COMP_FALLBACK := True\<rparr>) ''ac1'' 200 (Fin 1026)
          [''ac1'' \<mapsto> tracked_rec 200 1010 1025])) = [Some 0]
   \<and> (\<exists>m\<in>set (snd (faikin_comp_estimate example_builtins
          (default_config\<lparr>ENABLE_COMP_FALLBACK := True\<rparr>) ''state/ac1''
          [''comp'' \<mapsto> JInt 40] (Fin 1026) [''ac1'' \<mapsto> tracked_rec 200 1010 1025])).
        watts_of m \<noteq> None)"
proof -
  let ?st = "[''ac1'' \<mapsto> tracked_rec 200 1010 1025]"
  have h1: "topic_unit ''state/ac1'' = Some ''ac1''" by (simp add: topic_unit_def)
  have h2: "last_wh (get_rec ?st ''ac1'') = Some 200" by (simp add: tracked_rec_def)
  have h3: "last_ts (get_rec ?st ''ac1'') = Some (Fin 1010)" by (simp add: tracked_rec_def)
  have h4: "hold_until (get_rec ?st ''ac1'') = Some (Fin 1025)" by (simp add: tracked_rec_def)
  have h5: "Fin 1025 \<noteq> 0" "Fin 1025 \<noteq> NaN" by (simp_all add: zero_pyfloat_def)
  have h6: "ENABLE_COMP_FALLBACK (default_config\<lparr>ENABLE_COMP_FALLBACK := True\<rparr>)" by simp
  show ?thesis
    using h1 h2 h3 h4 h5 h6
      hold_window_closed_on_the_right [OF h1 h2 h3 h4 h5, where now = "Fin 1026"
        and b = example_builtins and cfg = "default_config\<lparr>ENABLE_COMP_FALLBACK := True\<rparr>"
        and p = "[''comp'' \<mapsto> JInt 40]"]
    by (simp add: list_all_iff)
qed

subsection \<open>Other units\<close>

text \<open>
  Claim C9. Whatever is done for one unit (an energy update, a power publish, a
  discovery, or either handler run on a topic naming that unit) leaves the entry of every
  other unit as it was.
\<close>

theorem other_units_untouched:
  assumes "other \<noteq> unit"
  shows "fst (update_from_energy b cfg unit wh ts st) other = st other
       \<and> fst (publish_power cfg unit w st) other = st other
       \<and> fst (discovery cfg unit d c st) other = st other
       \<and> (topic_unit t = Some unit \<longrightarrow>
            fst (faikin_energy_tick b cfg t p now st) other = st other
            \<and> fst (faikin_comp_estimate b cfg t p now st) other = st other)"
proof -
  have tick: "fst (faikin_energy_tick b cfg t p now st) other = st other"
    if u: "topic_unit t = Some unit"
  proof (cases "parse_wh b p")
    case None
    then show ?thesis by (simp add: tick_unparsed [OF u] discovery_other [OF assms])
  next
    case (Some n)
    show ?thesis
      using update_from_energy_other [OF assms] discovery_other [OF assms]
      by (simp add: tick_parsed [OF u Some] split: prod.splits) (metis fst_conv)
  qed
  have comp: "fst (faikin_comp_estimate b cfg t p now st) other = st other"
    if u: "topic_unit t = Some unit"
    using publish_power_other [OF assms] discovery_other [OF assms] u
    by (simp add: faikin_comp_estimate_def Let_def split: prod.splits) (metis fst_conv)
  show ?thesis
    using update_from_energy_other [OF assms] publish_power_other [OF assms]
      discovery_other [OF assms] tick comp
    by blast
qed

text \<open>Two units in the store; a tick for the first leaves the second as it was.\<close>

theorem other_units_untouched_witness:
  "''ac2'' \<noteq> ''ac1'' \<and> topic_unit ''state/ac1'' = Some ''ac1''
   \<and> fst (faikin_energy_tick example_builtins default_config ''state/ac1'' [''Wh'' \<mapsto> JInt 300] (Fin 1040)
          [''ac1'' \<mapsto> tracked_rec 200 1010 1025, ''ac2'' \<mapsto> tracked_rec 70 900 0]) ''ac2'' =
       Some (tracked_rec 70 900 0)
   \<and> fst (faikin_comp_estimate example_builtins (default_config\<lparr>ENABLE_COMP_FALLBACK := True\<rparr>)
          ''state/ac1'' [''comp'' \<mapsto> JInt 40] (Fin 1040)
          [''ac1'' \<mapsto> tracked_rec 200 1010 1025, ''ac2'' \<mapsto> tracked_rec 70 900 0]) ''ac2'' =
       Some (tracked_rec 70 900 0)"
proof -
  have h1: "''ac2'' \<noteq> ''ac1''" by simp
  have h2: "topic_unit ''state/ac1'' = Some ''ac1''" by (simp add: topic_unit_def)
  show ?thesis
    using h1 h2
      other_units_untouched [OF h1, where t = "''state/ac1''" and b = example_builtins
        and cfg = default_config and p = "[''Wh'' \<mapsto> JInt 300]" and now = "Fin 1040"
        and st = "[''ac1'' \<mapsto> tracked_rec 200 1010 1025, ''ac2'' \<mapsto> tracked_rec 70 900 0]"]
      other_units_untouched [OF h1, where t = "''state/ac1''" and b = example_builtins
        and cfg = "default_config\<lparr>ENABLE_COMP_FALLBACK := True\<rparr>"
        and p = "[''comp'' \<mapsto> JInt 40]" and now = "Fin 1040"
        and st = "[''ac1'' \<mapsto> tracked_rec 200 1010 1025, ''ac2'' \<mapsto> tracked_rec 70 900 0]"]
    by simp
qed

subsection \<open>An energy field that does not parse\<close>

text \<open>
  Claim C2, as the code has it. \<^verbatim>\<open>faikin_energy_tick\<close> calls \<^verbatim>\<open>_discovery\<close> before it
  converts the energy field. When the conversion fails, the handler has done exactly what
  \<^verbatim>\<open>_discovery\<close> does: no power message is published, the unit's reading, time, hold
  deadline and last published value are as before, and other units are untouched. For a
  unit already announced nothing is published and the store is unchanged. For a unit not
  yet announced the discovery message is published and the unit's entry is marked
  \<open>discovered\<close> (and created when the unit was unknown).
\<close>

theorem unparsed_energy_only_announces:
  assumes "topic_unit t = Some unit" and "parse_wh b p = None"
  shows "let (st', out) = faikin_energy_tick b cfg t p now st;
             r = get_rec st unit; r' = get_rec st' unit
         in (\<forall>m\<in>set out. watts_of m = None)
            \<and> last_wh r' = last_wh r \<and> last_ts r' = last_ts r
            \<and> hold_until r' = hold_until r \<and> last_w r' = last_w r
            \<and> (\<forall>other. other \<noteq> unit \<longrightarrow> st' other = st other)
            \<and> (discovered r = Some True \<longrightarrow> st' = st \<and> out = [])
            \<and> (discovered r \<noteq> Some True \<longrightarrow>
                 out = [discovery_msg cfg unit (device_id b p unit)
                          (Some (''http://'' @ unit @ ''.local/''))]
                 \<and> discovered r' = Some True)"
proof -
  let ?d = "discovery cfg unit (device_id b p unit) (Some (''http://'' @ unit @ ''.local/'')) st"
  obtain st' out where d: "?d = (st', out)"
    by (cases ?d)
  have e: "faikin_energy_tick b cfg t p now st = (st', out)"
    using tick_unparsed [OF assms] d by simp
  have 1: "\<forall>m\<in>set out. watts_of m = None"
    by (metis d snd_conv discovery_no_watts)
  have 2: "\<forall>other. other \<noteq> unit \<longrightarrow> st' other = st other"
    by (metis d fst_conv discovery_other)
  have 3: "discovered (get_rec st unit) = Some True \<longrightarrow> st' = st \<and> out = []"
    by (metis d prod.inject discovery_known)
  have 4: "discovered (get_rec st unit) \<noteq> Some True \<longrightarrow>
      out = [discovery_msg cfg unit (device_id b p unit) (Some (''http://'' @ unit @ ''.local/''))]"
    by (metis d snd_conv discovery_eq)
  have 5: "last_wh (get_rec st' unit) = last_wh (get_rec st unit)"
    "last_ts (get_rec st' unit) = last_ts (get_rec st unit)"
    "hold_until (get_rec st' unit) = hold_until (get_rec st unit)"
    "last_w (get_rec st' unit) = last_w (get_rec st unit)"
    by (metis d fst_conv discovery_fields(1), metis d fst_conv discovery_fields(2),
        metis d fst_conv discovery_fields(3), metis d fst_conv discovery_fields(4))
  have 6: "discovered (get_rec st' unit) = Some True"
    by (metis d fst_conv discovery_announced)
  show ?thesis
    unfolding e Let_def using 1 2 3 4 5 6 by simp
qed

text \<open>A unit that is already announced: the message with a null energy field changes nothing.\<close>

theorem unparsed_energy_only_announces_witness:
  "topic_unit ''state/ac1'' = Some ''ac1'' \<and> parse_wh example_builtins [''Wh'' \<mapsto> JNull] = None
   \<and> discovered (get_rec [''ac1'' \<mapsto> tracked_rec 200 1010 1025] ''ac1'') = Some True
   \<and> faikin_energy_tick example_builtins default_config ''state/ac1'' [''Wh'' \<mapsto> JNull] (Fin 1020)
        [''ac1'' \<mapsto> tracked_rec 200 1010 1025] = ([''ac1'' \<mapsto> tracked_rec 200 1010 1025], [])"
proof -
  let ?st = "[''ac1'' \<mapsto> tracked_rec 200 1010 1025]"
  have h1: "topic_unit ''state/ac1'' = Some ''ac1''" by (simp add: topic_unit_def)
  have h2: "parse_wh example_builtins [''Wh'' \<mapsto> JNull] = None" by (simp add: parse_wh_def)
  have h3: "discovered (get_rec ?st ''ac1'') = Some True" by (simp add: tracked_rec_def)
  show ?thesis
    using h1 h2 h3
      unparsed_energy_only_announces [OF h1 h2, where cfg = default_config and now = "Fin 1020"
        and st = ?st]
    by (simp add: Let_def split: prod.splits)
qed

text \<open>
  The first message of a unit, with a null energy field: the discovery message is published
  and an entry is created for the unit.
\<close>

theorem unparsed_energy_first_contact_announces:
  "parse_wh example_builtins [''Wh'' \<mapsto> JNull] = None
   \<and> faikin_energy_tick example_builtins default_config ''state/ac1'' [''Wh'' \<mapsto> JNull] (Fin 1000)
        Map.empty =
       ([''ac1'' \<mapsto> empty_rec\<lparr>discovered := Some True\<rparr>],
        [discovery_msg default_config ''ac1'' ''faikin-ac1'' (Some ''http://ac1.local/'')])
   \<and> [''ac1'' \<mapsto> empty_rec\<lparr>discovered := Some True\<rparr>] \<noteq> Map.empty"
proof -
  have h1: "topic_unit ''state/ac1'' = Some ''ac1''" by (simp add: topic_unit_def)
  have h2: "parse_wh example_builtins [''Wh'' \<mapsto> JNull] = None" by (simp add: parse_wh_def)
  have "discovery default_config ''ac1'' (device_id example_builtins [''Wh'' \<mapsto> JNull] ''ac1'')
          (Some (''http://'' @ ''ac1'' @ ''.local/'')) Map.empty =
        ([''ac1'' \<mapsto> empty_rec\<lparr>discovered := Some True\<rparr>],
         [discovery_msg default_config ''ac1'' ''faikin-ac1'' (Some ''http://ac1.local/'')])"
    by (simp add: discovery_eq device_id_def get_rec_def empty_rec_def upd_rec_def)
  then show ?thesis
    using h2 by (simp add: tick_unparsed [OF h1 h2])
qed

subsection \<open>The announcement over a sequence of messages\<close>

lemma announcements_simps [simp]:
  "announcements cfg unit [] = 0"
  "announcements cfg unit (xs @ ys) = announcements cfg unit xs + announcements cfg unit ys"
  by (simp_all add: announcements_def)

lemma cfg_topic_inj: "cfg_topic cfg u = cfg_topic cfg v \<longleftrightarrow> u = v"
  by (simp add: cfg_topic_def)

lemma is_discovery_for_msg: "is_discovery_for cfg u (discovery_msg cfg v d c) \<longleftrightarrow> u = v"
  by (auto simp: is_discovery_for_def discovery_msg_def cfg_topic_inj)

lemma not_discovery_if_watts: "watts_of m = Some w \<Longrightarrow> \<not> is_discovery_for cfg u m"
  by (auto simp: is_discovery_for_def watts_of_def split: mqtt_payload.splits)

lemma announcements_discovery:
  "announcements cfg u (snd (discovery cfg v d c st)) =
     (if u = v \<and> discovered (get_rec st v) \<noteq> Some True then 1 else 0)"
  by (simp add: discovery_eq announcements_def is_discovery_for_msg)

lemma discovered_discovery:
  "discovered (get_rec (fst (discovery cfg v d c st)) u) = Some True \<longleftrightarrow>
     u = v \<or> discovered (get_rec st u) = Some True"
  by (auto simp: discovery_eq get_rec_setdefault get_rec_upd_rec)

lemma publish_power_out:
  "snd (publish_power cfg unit w st) =
     [\<lparr>topic = power_topic unit, payload = Watts (py_round1 (clamp_watts cfg w)), qos = 0,
       retain = True\<rparr>]"
  by (simp add: publish_power_def Let_def)

lemma publish_power_watts:
  "m \<in> set (snd (publish_power cfg unit w st)) \<Longrightarrow>
     watts_of m = Some (py_round1 (clamp_watts cfg w))"
  by (simp add: publish_power_out watts_of_def)

lemma update_from_energy_watts:
  "m \<in> set (snd (update_from_energy b cfg unit wh ts st)) \<Longrightarrow>
     \<exists>w. watts_of m = Some (py_round1 (clamp_watts cfg w))"
  by (auto simp: update_from_energy_def Let_def reinit_def publish_power_def watts_of_def
        split: option.splits if_splits prod.splits)

lemma announcements_none:
  "(\<And>m. m \<in> set out \<Longrightarrow> \<exists>w. watts_of m = Some w) \<Longrightarrow> announcements cfg u out = 0"
  by (auto simp: announcements_def filter_empty_conv dest: not_discovery_if_watts)

lemma announcements_publish_power: "announcements cfg u (snd (publish_power cfg unit w st)) = 0"
  by (rule announcements_none) (auto dest: publish_power_watts)

lemma announcements_update: "announcements cfg u (snd (update_from_energy b cfg unit wh ts st)) = 0"
  by (rule announcements_none) (auto dest: update_from_energy_watts)

lemma discovered_publish_power:
  "discovered (get_rec (fst (publish_power cfg unit w st)) u) = discovered (get_rec st u)"
  by (simp add: publish_power_def Let_def get_rec_upd_rec)

lemma discovered_update:
  "discovered (get_rec (fst (update_from_energy b cfg unit wh ts st)) u) = discovered (get_rec st u)"
  by (auto simp: update_from_energy_def Let_def reinit_def publish_power_def get_rec_upd_rec
        get_rec_setdefault split: option.splits prod.splits)

lemma handle_announcements:
  "announcements cfg u (snd (handle b cfg e st)) =
     (if reaches_discovery cfg u e \<and> discovered (get_rec st u) \<noteq> Some True then 1 else 0)
   \<and> (discovered (get_rec (fst (handle b cfg e st)) u) = Some True \<longleftrightarrow>
        reaches_discovery cfg u e \<or> discovered (get_rec st u) = Some True)"
proof (cases e)
  case (EnergyTick t p now)
  show ?thesis
  proof (cases "topic_unit t")
    case None
    then show ?thesis using EnergyTick by (simp add: tick_no_unit)
  next
    case (Some v)
    let ?d = "discovery cfg v (device_id b p v) (Some (''http://'' @ v @ ''.local/'')) st"
    obtain st1 out1 where d: "?d = (st1, out1)" by (cases ?d)
    have a1: "announcements cfg u out1 =
        (if u = v \<and> discovered (get_rec st v) \<noteq> Some True then 1 else 0)"
      by (metis d snd_conv announcements_discovery)
    have d1: "discovered (get_rec st1 u) = Some True \<longleftrightarrow>
        u = v \<or> discovered (get_rec st u) = Some True"
      by (metis d fst_conv discovered_discovery)
    show ?thesis
    proof (cases "parse_wh b p")
      case None
      have "handle b cfg e st = (st1, out1)"
        using EnergyTick tick_unparsed [OF Some None] d by simp
      then show ?thesis using a1 d1 EnergyTick Some by auto
    next
      case (Some wh)
      obtain st2 out2 where u: "update_from_energy b cfg v wh now st1 = (st2, out2)"
        by (cases "update_from_energy b cfg v wh now st1")
      have a2: "announcements cfg u out2 = 0"
        by (metis u snd_conv announcements_update)
      have d2: "discovered (get_rec st2 u) = discovered (get_rec st1 u)"
        by (metis u fst_conv discovered_update)
      have "handle b cfg e st = (st2, out1 @ out2)"
        using EnergyTick tick_parsed [OF \<open>topic_unit t = Some v\<close> Some] d u by simp
      then show ?thesis using a1 d1 a2 d2 EnergyTick \<open>topic_unit t = Some v\<close> by auto
    qed
  qed
next
  case (CompEstimate t p now)
  show ?thesis
  proof (cases "ENABLE_COMP_FALLBACK cfg")
    case False
    then show ?thesis using CompEstimate by (simp add: comp_disabled)
  next
    case True
    show ?thesis
    proof (cases "topic_unit t")
      case None
      then show ?thesis using CompEstimate by (simp add: comp_no_unit)
    next
      case (Some v)
      let ?d = "discovery cfg v (device_id b p v) (Some (''http://'' @ v @ ''.local/'')) st"
      obtain st1 out1 where d: "?d = (st1, out1)" by (cases ?d)
      have a1: "announcements cfg u out1 =
          (if u = v \<and> discovered (get_rec st v) \<noteq> Some True then 1 else 0)"
        by (metis d snd_conv announcements_discovery)
      have d1: "discovered (get_rec st1 u) = Some True \<longleftrightarrow>
          u = v \<or> discovered (get_rec st u) = Some True"
        by (metis d fst_conv discovered_discovery)
      show ?thesis
      proof (cases "hold_of (get_rec st v) \<noteq> 0 \<and> now \<le> hold_of (get_rec st v)")
        case held: True
        have "handle b cfg e st = (st1, out1)"
          using CompEstimate comp_held [OF True Some, of st now b p] held d by simp
        then show ?thesis using a1 d1 CompEstimate Some True by auto
      next
        case free: False
        let ?est = "estimate_power_from_comp (Some (fst (parse_comp_fan b p)))
                      (snd (parse_comp_fan b p))"
        obtain st2 out2 where u: "publish_power cfg v ?est st1 = (st2, out2)"
          by (cases "publish_power cfg v ?est st1")
        have a2: "announcements cfg u out2 = 0"
          by (metis u snd_conv announcements_publish_power)
        have d2: "discovered (get_rec st2 u) = discovered (get_rec st1 u)"
          by (metis u fst_conv discovered_publish_power)
        have "handle b cfg e st = (st2, out1 @ out2)"
          using CompEstimate comp_free [OF True Some free, of b p] d u by simp
        then show ?thesis using a1 d1 a2 d2 CompEstimate Some True by auto
      qed
    qed
  qed
qed

lemma run_announcements:
  "announcements cfg u (snd (run b cfg es st)) =
     (if (\<exists>e\<in>set es. reaches_discovery cfg u e) \<and> discovered (get_rec st u) \<noteq> Some True
      then 1 else 0)
   \<and> (discovered (get_rec (fst (run b cfg es st)) u) = Some True \<longleftrightarrow>
        (\<exists>e\<in>set es. reaches_discovery cfg u e) \<or> discovered (get_rec st u) = Some True)"
proof (induction es arbitrary: st)
  case Nil
  show ?case by simp
next
  case (Cons e es)
  obtain st1 out1 where h: "handle b cfg e st = (st1, out1)" by (cases "handle b cfg e st")
  obtain st2 out2 where r: "run b cfg es st1 = (st2, out2)" by (cases "run b cfg es st1")
  have hs: "announcements cfg u out1 =
       (if reaches_discovery cfg u e \<and> discovered (get_rec st u) \<noteq> Some True then 1 else 0)"
    "discovered (get_rec st1 u) = Some True \<longleftrightarrow>
        reaches_discovery cfg u e \<or> discovered (get_rec st u) = Some True"
    using handle_announcements [of cfg u b e st] h by simp_all
  have rs: "announcements cfg u out2 =
       (if (\<exists>e\<in>set es. reaches_discovery cfg u e) \<and> discovered (get_rec st1 u) \<noteq> Some True
        then 1 else 0)"
    "discovered (get_rec st2 u) = Some True \<longleftrightarrow>
        (\<exists>e\<in>set es. reaches_discovery cfg u e) \<or> discovered (get_rec st1 u) = Some True"
    using Cons.IH [of st1] r by simp_all
  have "run b cfg (e # es) st = (st2, out1 @ out2)"
    using h r by simp
  then show ?case using hs rs by auto
qed

lemma run_append:
  "run b cfg (es1 @ es2) st =
     (let (st1, out1) = run b cfg es1 st; (st2, out2) = run b cfg es2 st1
      in (st2, out1 @ out2))"
  by (induction es1 arbitrary: st) (simp_all add: Let_def split: prod.splits)

text \<open>
  Claim C8, as the code has it. Starting from the empty store, over any sequence of
  handler invocations the announcement of a unit is published once if some invocation
  reaches \<^verbatim>\<open>_discovery\<close> for that unit (an energy tick for it, or a compressor message
  for it while the fallback is enabled), and not at all otherwise. It is published by the
  first invocation that reaches \<^verbatim>\<open>_discovery\<close> for the unit: nothing before that
  invocation and nothing after it announces the unit.
\<close>

theorem announced_once_when_discovery_reached:
  "announcements cfg unit (snd (run b cfg es Map.empty)) =
     (if \<exists>e\<in>set es. reaches_discovery cfg unit e then 1 else 0)
   \<and> ((\<forall>e\<in>set es1. \<not> reaches_discovery cfg unit e) \<and> reaches_discovery cfg unit e1 \<longrightarrow>
        announcements cfg unit (snd (run b cfg es1 Map.empty)) = 0
        \<and> announcements cfg unit
            (snd (handle b cfg e1 (fst (run b cfg es1 Map.empty)))) = 1
        \<and> announcements cfg unit
            (snd (run b cfg es2 (fst (run b cfg (es1 @ [e1]) Map.empty)))) = 0)"
proof -
  have e0: "discovered (get_rec Map.empty unit) \<noteq> Some True"
    by (simp add: get_rec_def empty_rec_def)
  have a: "announcements cfg unit (snd (run b cfg es Map.empty)) =
     (if \<exists>e\<in>set es. reaches_discovery cfg unit e then 1 else 0)" for es
    using run_announcements [of cfg unit b es Map.empty] e0 by simp
  have b: "announcements cfg unit (snd (handle b cfg e1 (fst (run b cfg es1 Map.empty)))) = 1"
    and c: "announcements cfg unit
              (snd (run b cfg es2 (fst (run b cfg (es1 @ [e1]) Map.empty)))) = 0"
    if n: "\<forall>e\<in>set es1. \<not> reaches_discovery cfg unit e" and r: "reaches_discovery cfg unit e1"
  proof -
    have "discovered (get_rec (fst (run b cfg es1 Map.empty)) unit) \<noteq> Some True"
      using run_announcements [of cfg unit b es1 Map.empty] e0 n by simp
    then show "announcements cfg unit (snd (handle b cfg e1 (fst (run b cfg es1 Map.empty)))) = 1"
      using handle_announcements [of cfg unit b e1 "fst (run b cfg es1 Map.empty)"] r by simp
    have "discovered (get_rec (fst (run b cfg (es1 @ [e1]) Map.empty)) unit) = Some True"
      using run_announcements [of cfg unit b "es1 @ [e1]" Map.empty] r by simp
    then show "announcements cfg unit
        (snd (run b cfg es2 (fst (run b cfg (es1 @ [e1]) Map.empty)))) = 0"
      using run_announcements [of cfg unit b es2 "fst (run b cfg (es1 @ [e1]) Map.empty)"]
      by simp
  qed
  show ?thesis using a b c by simp
qed

text \<open>
  With the fallback disabled: a compressor message, then two energy ticks of the same
  unit. The first tick announces the unit; the run as a whole announces it once.
\<close>

theorem announced_once_when_discovery_reached_witness:
  "(\<exists>e\<in>set [CompEstimate ''state/ac1'' [''comp'' \<mapsto> JInt 40] (Fin 990),
              EnergyTick ''state/ac1'' [''Wh'' \<mapsto> JInt 100] (Fin 1000),
              EnergyTick ''state/ac1'' [''Wh'' \<mapsto> JInt 101] (Fin 1010)].
       reaches_discovery default_config ''ac1'' e)
   \<and> announcements default_config ''ac1''
       (snd (run example_builtins default_config
          [CompEstimate ''state/ac1'' [''comp'' \<mapsto> JInt 40] (Fin 990),
           EnergyTick ''state/ac1'' [''Wh'' \<mapsto> JInt 100] (Fin 1000),
           EnergyTick ''state/ac1'' [''Wh'' \<mapsto> JInt 101] (Fin 1010)] Map.empty)) = 1
   \<and> list_all (\<lambda>e. \<not> reaches_discovery default_config ''ac1'' e)
         [CompEstimate ''state/ac1'' [''comp'' \<mapsto> JInt 40] (Fin 990)]
   \<and> reaches_discovery default_config ''ac1'' (EnergyTick ''state/ac1'' [''Wh'' \<mapsto> JInt 100] (Fin 1000))
   \<and> announcements default_config ''ac1''
       (snd (handle example_builtins default_config
          (EnergyTick ''state/ac1'' [''Wh'' \<mapsto> JInt 100] (Fin 1000))
          (fst (run example_builtins default_config
             [CompEstimate ''state/ac1'' [''comp'' \<mapsto> JInt 40] (Fin 990)] Map.empty)))) = 1"
proof -
  have h1: "topic_unit ''state/ac1'' = Some ''ac1''" by (simp add: topic_unit_def)
  have h2: "\<not> ENABLE_COMP_FALLBACK default_config" by (simp add: default_config_def)
  show ?thesis
    using h1 h2
      announced_once_when_discovery_reached [where cfg = default_config and unit = "''ac1''"
        and b = example_builtins
        and es = "[CompEstimate ''state/ac1'' [''comp'' \<mapsto> JInt 40] (Fin 990),
                   EnergyTick ''state/ac1'' [''Wh'' \<mapsto> JInt 100] (Fin 1000),
                   EnergyTick ''state/ac1'' [''Wh'' \<mapsto> JInt 101] (Fin 1010)]"
        and ?es1.0 = "[CompEstimate ''state/ac1'' [''comp'' \<mapsto> JInt 40] (Fin 990)]"
        and ?e1.0 = "EnergyTick ''state/ac1'' [''Wh'' \<mapsto> JInt 100] (Fin 1000)"
        and ?es2.0 = "[]"]
    by simp
qed

text \<open>
  With the fallback disabled (the default), two compressor messages of a unit are its
  first contact and publish nothing: the unit is not announced.
\<close>

theorem compressor_contact_not_announced:
  "run example_builtins default_config
     [CompEstimate ''state/ac1'' [''comp'' \<mapsto> JInt 40] (Fin 1000),
      CompEstimate ''state/ac1'' [''comp'' \<mapsto> JInt 45] (Fin 1060)] Map.empty = (Map.empty, [])
   \<and> announcements default_config ''ac1'' [] = 0"
proof -
  have h2: "\<not> ENABLE_COMP_FALLBACK default_config" by (simp add: default_config_def)
  show ?thesis
    by (simp add: comp_disabled [OF h2])
qed

subsection \<open>Bounds on every published wattage\<close>

lemma inf_less_simps [simp]:
  "NInf < x \<longleftrightarrow> x \<noteq> NaN \<and> x \<noteq> NInf" "x < PInf \<longleftrightarrow> x \<noteq> NaN \<and> x \<noteq> PInf"
  "PInf \<le> x \<longleftrightarrow> x = PInf" "x \<le> NInf \<longleftrightarrow> x = NInf"
  by (cases x; simp)+

lemma zero_inf_simps [simp]:
  "NInf < (0::pyfloat)" "\<not> PInf < (0::pyfloat)" "\<not> (0::pyfloat) \<le> NInf" "(0::pyfloat) \<le> PInf"
  "\<not> (0::pyfloat) < NInf" "NInf \<le> (0::pyfloat)" "\<not> PInf \<le> (0::pyfloat)"
  "\<not> NaN < (0::pyfloat)" "\<not> (0::pyfloat) < NaN" "\<not> NaN \<le> (0::pyfloat)" "\<not> (0::pyfloat) \<le> NaN"
  by (simp_all add: zero_pyfloat_def)

lemma round_tenth_mono: "x \<le> y \<Longrightarrow> round_tenth x \<le> round_tenth y"
  by (simp add: round_tenth_def round_half_even_mono divide_right_mono)

lemma round_tenth_nonneg: "0 \<le> x \<Longrightarrow> 0 \<le> round_tenth x"
  using round_tenth_mono [of 0 x] by (simp add: round_tenth_0)

lemma py_round1_mono: "x \<le> y \<Longrightarrow> py_round1 x \<le> py_round1 y"
  by (cases x; cases y) (simp_all add: round_tenth_mono)

lemma py_round1_nonneg: "0 \<le> x \<Longrightarrow> 0 \<le> py_round1 x"
  using py_round1_mono [of 0 x] by (simp add: py_round1_0)

lemma clamp_watts_nonneg: "raw \<noteq> NaN \<Longrightarrow> 0 \<le> clamp_watts cfg raw"
  by (cases raw; cases "MIN_POWER_W cfg") (auto simp: clamp_watts_def Let_def py_max_def)

lemma clamp_watts_floor:
  "raw \<noteq> NaN \<Longrightarrow> 0 < MIN_POWER_W cfg \<Longrightarrow>
     clamp_watts cfg raw = 0 \<or> MIN_POWER_W cfg \<le> clamp_watts cfg raw"
  by (cases raw; cases "MIN_POWER_W cfg") (auto simp: clamp_watts_def Let_def py_max_def)

lemma clamp_watts_floor_pos:
  "0 < MIN_POWER_W cfg \<Longrightarrow> 0 < raw \<Longrightarrow> MIN_POWER_W cfg \<le> clamp_watts cfg raw"
  by (cases raw; cases "MIN_POWER_W cfg") (auto simp: clamp_watts_def Let_def py_max_def)

lemma published_value_bounds:
  assumes "raw \<noteq> NaN"
  shows "0 \<le> py_round1 (clamp_watts cfg raw)
   \<and> (0 < MIN_POWER_W cfg \<longrightarrow>
        py_round1 (clamp_watts cfg raw) = 0
        \<or> py_round1 (MIN_POWER_W cfg) \<le> py_round1 (clamp_watts cfg raw))"
  using clamp_watts_nonneg [OF assms, of cfg] clamp_watts_floor [OF assms, of cfg]
    py_round1_mono [of "MIN_POWER_W cfg" "clamp_watts cfg raw"] py_round1_nonneg py_round1_0
  by metis

text \<open>The raw values handed to \<^verbatim>\<open>_publish_power\<close> are never a NaN.\<close>

lemma fl_nonneg_not_nan: "0 \<le> x \<Longrightarrow> fl x \<noteq> NaN \<and> 0 \<le> fl x"
  using fl_nonneg [of x] by auto

lemma float_of_int_pos:
  assumes "float_of_int n = Some dwh" and "0 < n"
  shows "\<exists>d. 0 \<le> d \<and> dwh = Fin d"
proof -
  have "0 \<le> real_of_int n" using assms(2) by simp
  then show ?thesis
    using fl_nonneg [of "of_int n"] assms(1) by (auto simp: float_of_int_def)
qed

lemma clock_difference:
  assumes "is_clock a" and "is_clock b"
  shows "\<exists>r. fl_sub a b = Fin r"
proof -
  obtain x y where a: "a = Fin x" "\<bar>x\<bar> < 2 ^ 1022" and b: "b = Fin y" "\<bar>y\<bar> < 2 ^ 1022"
    using assms by (cases a; cases b) auto
  have "\<bar>x - y\<bar> < 2 ^ 1022 + 2 ^ 1022" using a(2) b(2) by linarith
  also have "(2::real) ^ 1022 + 2 ^ 1022 = 2 powi 1023" by simp
  finally show ?thesis using fl_finite [of "x - y"] by (simp add: a b)
qed

lemma rate_not_nan:
  assumes "float_of_int n = Some dwh" and "0 < n" and "is_clock ts" and "is_clock lts"
  shows "fl_div (fl_mul dwh (Fin 3600)) (py_max (Fin (1 / 2)) (fl_sub ts lts)) \<noteq> NaN"
proof -
  obtain d where d: "0 \<le> d" "dwh = Fin d" using float_of_int_pos [OF assms(1,2)] by auto
  obtain r where r: "fl_sub ts lts = Fin r" using clock_difference [OF assms(3,4)] by auto
  define dt where "dt = (if 1 / 2 < r then r else 1 / 2)"
  have dt: "py_max (Fin (1 / 2)) (fl_sub ts lts) = Fin dt" "0 < dt"
    by (simp_all add: r py_max_def dt_def)
  have p: "0 \<le> d * 3600" using d(1) by simp
  show ?thesis
  proof (cases "fl (d * 3600)")
    case (Fin q)
    then have "0 \<le> q" using fl_nonneg [OF p] by simp
    then have "0 \<le> q / dt" using dt(2) by simp
    then show ?thesis using fl_nonneg_not_nan [of "q / dt"] by (simp add: d dt Fin)
  next
    case PInf
    then show ?thesis using dt(2) by (simp add: d dt)
  next
    case NInf
    then show ?thesis using fl_nonneg [OF p] by simp
  next
    case NaN
    then show ?thesis using fl_nonneg [OF p] by simp
  qed
qed

lemma estimate_not_nan: "estimate_power_from_comp c f \<noteq> NaN"
  by (auto simp: estimate_power_from_comp_def py_max_def zero_pyfloat_def split: option.splits)

lemma last_ts_publish_power:
  "last_ts (get_rec (fst (publish_power cfg unit w st)) u) = last_ts (get_rec st u)"
  by (simp add: publish_power_def Let_def get_rec_upd_rec)

lemma stored_clocks_publish_power:
  "stored_clocks st \<Longrightarrow> stored_clocks (fst (publish_power cfg unit w st))"
  by (simp add: stored_clocks_def last_ts_publish_power)

lemma stored_clocks_discovery:
  "stored_clocks st \<Longrightarrow> stored_clocks (fst (discovery cfg unit d c st))"
  by (simp add: stored_clocks_def discovery_fields)

lemma stored_clocks_empty: "stored_clocks Map.empty"
  by (simp add: stored_clocks_def get_rec_def empty_rec_def)

lemma zero_not_nan: "(0::pyfloat) \<noteq> NaN"
  by (simp add: zero_pyfloat_def)

lemma update_from_energy_clocked:
  assumes "stored_clocks st" and "is_clock ts_now"
  shows "stored_clocks (fst (update_from_energy b cfg unit wh_now ts_now st))
       \<and> (\<forall>m\<in>set (snd (update_from_energy b cfg unit wh_now ts_now st)).
             \<exists>raw. raw \<noteq> NaN \<and> watts_of m = Some (py_round1 (clamp_watts cfg raw)))"
proof -
  let ?P = "\<lambda>res. stored_clocks (fst res)
       \<and> (\<forall>m\<in>set (snd res). \<exists>raw. raw \<noteq> NaN \<and> watts_of m = Some (py_round1 (clamp_watts cfg raw)))"
  have "watts_of \<lparr>topic = power_topic unit, payload = Watts 0, qos = 0, retain = True\<rparr>
      = Some (py_round1 (clamp_watts cfg 0))"
    by (simp add: watts_of_def clamp_watts_0 py_round1_0)
  then have zero: "\<exists>raw. raw \<noteq> NaN \<and>
      watts_of \<lparr>topic = power_topic unit, payload = Watts 0, qos = 0, retain = True\<rparr>
        = Some (py_round1 (clamp_watts cfg raw))"
    using zero_not_nan by blast
  consider
      (init) "last_wh (get_rec st unit) = None \<or> last_ts (get_rec st unit) = None
           \<or> (\<exists>lwh. last_wh (get_rec st unit) = Some lwh \<and> wh_now < lwh)"
    | (same) lts where "last_wh (get_rec st unit) = Some wh_now" "last_ts (get_rec st unit) = Some lts"
    | (more) lwh lts where "last_wh (get_rec st unit) = Some lwh"
        "last_ts (get_rec st unit) = Some lts" "lwh < wh_now"
    by (cases "last_wh (get_rec st unit)"; cases "last_ts (get_rec st unit)") force+
  then show ?thesis
  proof cases
    case init
    have "stored_clocks (st(unit \<mapsto> (get_rec st unit)\<lparr>last_wh := Some wh_now,
        last_ts := Some ts_now, hold_until := Some 0, last_w := Some 0\<rparr>))"
      using assms by (auto simp: stored_clocks_def get_rec_def)
    then show ?thesis
      unfolding update_reinit [OF init] reinit_eq using zero by simp
  next
    case same
    show ?thesis
    proof (cases "hold_of (get_rec st unit) \<noteq> 0 \<and> hold_of (get_rec st unit) < ts_now")
      case True
      have "stored_clocks (st(unit \<mapsto> (get_rec st unit)\<lparr>hold_until := Some 0, last_w := Some 0\<rparr>))"
        using assms(1) by (auto simp: stored_clocks_def get_rec_def)
      then show ?thesis
        using update_unchanged_expired [OF same, of ts_now b cfg] True zero by simp
    next
      case False
      then show ?thesis using update_unchanged_held [OF same False, of b cfg] assms(1) by simp
    qed
  next
    case more
    show ?thesis
    proof (cases "float_of_int (wh_now - lwh)")
      case None
      then show ?thesis using update_increase_overflow [OF more None, of b cfg ts_now] assms(1) by simp
    next
      case (Some dwh)
      let ?raw = "fl_div (fl_mul dwh (Fin 3600)) (py_max (Fin (1 / 2)) (fl_sub ts_now lts))"
      have "is_clock lts" using assms(1) more(2) by (simp add: stored_clocks_def)
      then have raw: "?raw \<noteq> NaN"
        using rate_not_nan [OF Some _ assms(2)] more(3) by simp
      have "stored_clocks (upd_rec unit
                (\<lambda>r. r\<lparr>last_wh := Some wh_now, last_ts := Some ts_now,
                        hold_until := Some (fl_add ts_now
                          (compute_hold_seconds b cfg
                             (py_max (Fin (1 / 2)) (fl_sub ts_now lts))))\<rparr>) st)"
        using assms by (auto simp: stored_clocks_def get_rec_upd_rec)
      then show ?thesis
        unfolding update_increase [OF more Some]
        using raw by (auto simp: stored_clocks_publish_power publish_power_out watts_of_def)
    qed
  qed
qed

lemma handle_clocked:
  assumes "stored_clocks st" and "is_clock (event_time e)"
  shows "stored_clocks (fst (handle b cfg e st))
       \<and> (\<forall>m\<in>set (snd (handle b cfg e st)). \<forall>x. watts_of m = Some x \<longrightarrow>
             (\<exists>raw. raw \<noteq> NaN \<and> x = py_round1 (clamp_watts cfg raw)))"
proof (cases e)
  case (EnergyTick t p now)
  show ?thesis
  proof (cases "topic_unit t")
    case None
    then show ?thesis using assms(1) EnergyTick by (simp add: tick_no_unit)
  next
    case (Some v)
    let ?d = "discovery cfg v (device_id b p v) (Some (''http://'' @ v @ ''.local/'')) st"
    obtain st1 out1 where d: "?d = (st1, out1)" by (cases ?d)
    have n1: "\<forall>m\<in>set out1. watts_of m = None"
      by (metis d snd_conv discovery_no_watts)
    have c1: "stored_clocks st1"
      by (metis d fst_conv stored_clocks_discovery assms(1))
    show ?thesis
    proof (cases "parse_wh b p")
      case None
      have "handle b cfg e st = (st1, out1)"
        using EnergyTick tick_unparsed [OF Some None] d by simp
      then show ?thesis using c1 n1 by simp
    next
      case (Some wh)
      obtain st2 out2 where u: "update_from_energy b cfg v wh now st1 = (st2, out2)"
        by (cases "update_from_energy b cfg v wh now st1")
      have h: "handle b cfg e st = (st2, out1 @ out2)"
        using EnergyTick tick_parsed [OF \<open>topic_unit t = Some v\<close> Some] d u by simp
      have "is_clock now" using assms(2) EnergyTick by simp
      then have "stored_clocks st2
          \<and> (\<forall>m\<in>set out2. \<exists>raw. raw \<noteq> NaN \<and> watts_of m = Some (py_round1 (clamp_watts cfg raw)))"
        using update_from_energy_clocked [OF c1, of now b cfg v wh] u by simp
      then show ?thesis unfolding h using n1 by fastforce
    qed
  qed
next
  case (CompEstimate t p now)
  show ?thesis
  proof (cases "ENABLE_COMP_FALLBACK cfg")
    case False
    then show ?thesis using assms(1) CompEstimate by (simp add: comp_disabled)
  next
    case True
    show ?thesis
    proof (cases "topic_unit t")
      case None
      then show ?thesis using assms(1) CompEstimate by (simp add: comp_no_unit)
    next
      case (Some v)
      let ?d = "discovery cfg v (device_id b p v) (Some (''http://'' @ v @ ''.local/'')) st"
      obtain st1 out1 where d: "?d = (st1, out1)" by (cases ?d)
      have n1: "\<forall>m\<in>set out1. watts_of m = None"
        by (metis d snd_conv discovery_no_watts)
      have c1: "stored_clocks st1"
        by (metis d fst_conv stored_clocks_discovery assms(1))
      show ?thesis
      proof (cases "hold_of (get_rec st v) \<noteq> 0 \<and> now \<le> hold_of (get_rec st v)")
        case held: True
        have "handle b cfg e st = (st1, out1)"
          using CompEstimate comp_held [OF True Some, of st now b p] held d by simp
        then show ?thesis using c1 n1 by simp
      next
        case free: False
        let ?est = "estimate_power_from_comp (Some (fst (parse_comp_fan b p)))
                      (snd (parse_comp_fan b p))"
        obtain st2 out2 where u: "publish_power cfg v ?est st1 = (st2, out2)"
          by (cases "publish_power cfg v ?est st1")
        have h: "handle b cfg e st = (st2, out1 @ out2)"
          using CompEstimate comp_free [OF True Some free, of b p] d u by simp
        have s2: "stored_clocks st2"
          by (metis u fst_conv stored_clocks_publish_power c1)
        have o2: "out2 = [\<lparr>topic = power_topic v,
            payload = Watts (py_round1 (clamp_watts cfg ?est)), qos = 0, retain = True\<rparr>]"
          by (metis u snd_conv publish_power_out)
        show ?thesis
          unfolding h using s2 n1 estimate_not_nan [of "Some (fst (parse_comp_fan b p))"]
          by (auto simp: o2 watts_of_def)
      qed
    qed
  qed
qed

lemma run_clocked:
  assumes "stored_clocks st" and "\<forall>e\<in>set es. is_clock (event_time e)"
    and "m \<in> set (snd (run b cfg es st))" and "watts_of m = Some x"
  shows "\<exists>raw. raw \<noteq> NaN \<and> x = py_round1 (clamp_watts cfg raw)"
  using assms(1-3)
proof (induction es arbitrary: st)
  case Nil
  then show ?case by simp
next
  case (Cons e es)
  obtain st1 out1 where h: "handle b cfg e st = (st1, out1)" by (cases "handle b cfg e st")
  obtain st2 out2 where r: "run b cfg es st1 = (st2, out2)" by (cases "run b cfg es st1")
  have e: "is_clock (event_time e)" using Cons.prems(2) by simp
  have hc: "stored_clocks st1"
    "\<forall>m\<in>set out1. \<forall>x. watts_of m = Some x \<longrightarrow>
       (\<exists>raw. raw \<noteq> NaN \<and> x = py_round1 (clamp_watts cfg raw))"
    using handle_clocked [OF Cons.prems(1) e, of b cfg] h by simp_all
  have "m \<in> set out1 \<or> m \<in> set out2"
    using Cons.prems(3) h r by simp
  then show ?case
  proof
    assume "m \<in> set out1"
    then show ?thesis using hc(2) assms(4) by blast
  next
    assume "m \<in> set out2"
    then show ?thesis
      using Cons.IH [OF hc(1)] Cons.prems(2) r by simp
  qed
qed

text \<open>
  Claim C6, as the code has it. \<^verbatim>\<open>_publish_power\<close> clamps the raw value, remembers the
  clamped value as \<open>last_w\<close> and publishes it rounded to one decimal. For a raw value that
  is not a NaN, the remembered value and the payload are at least 0 and, when a positive
  minimum is configured and the raw value is positive, the remembered value is at least
  the minimum and the payload at least the minimum rounded to one decimal. Over any
  sequence of handler invocations from the empty store, at readings of the clock, no raw
  value is a NaN: every published wattage is at least 0, and under a positive minimum it
  is 0 or at least the minimum rounded to one decimal.
\<close>

theorem published_watts_bounded:
  "(raw \<noteq> NaN \<longrightarrow>
      (let (st', out) = publish_power cfg unit raw st; w = clamp_watts cfg raw
       in last_w (get_rec st' unit) = Some w
          \<and> map watts_of out = [Some (py_round1 w)]
          \<and> 0 \<le> w \<and> 0 \<le> py_round1 w
          \<and> (0 < MIN_POWER_W cfg \<and> 0 < raw \<longrightarrow>
               MIN_POWER_W cfg \<le> w \<and> py_round1 (MIN_POWER_W cfg) \<le> py_round1 w)))
   \<and> ((\<forall>e\<in>set es. is_clock (event_time e)) \<longrightarrow>
        (\<forall>m\<in>set (snd (run b cfg es Map.empty)). \<forall>x. watts_of m = Some x \<longrightarrow>
           0 \<le> x \<and> (0 < MIN_POWER_W cfg \<longrightarrow> x = 0 \<or> py_round1 (MIN_POWER_W cfg) \<le> x)))"
proof -
  obtain st' out where pp: "publish_power cfg unit raw st = (st', out)"
    by (cases "publish_power cfg unit raw st")
  have 1: "last_w (get_rec st' unit) = Some (clamp_watts cfg raw)"
    using pp by (auto simp: publish_power_def Let_def get_rec_upd_rec)
  have 2: "map watts_of out = [Some (py_round1 (clamp_watts cfg raw))]"
    using pp by (auto simp: publish_power_def Let_def watts_of_def)
  have 3: "MIN_POWER_W cfg \<le> clamp_watts cfg raw
      \<and> py_round1 (MIN_POWER_W cfg) \<le> py_round1 (clamp_watts cfg raw)"
    if "0 < MIN_POWER_W cfg" "0 < raw"
    using clamp_watts_floor_pos [OF that] py_round1_mono by blast
  have 4: "0 \<le> x \<and> (0 < MIN_POWER_W cfg \<longrightarrow> x = 0 \<or> py_round1 (MIN_POWER_W cfg) \<le> x)"
    if "\<forall>e\<in>set es. is_clock (event_time e)"
      "m \<in> set (snd (run b cfg es Map.empty))" "watts_of m = Some x" for m x
    using run_clocked [OF stored_clocks_empty that] published_value_bounds [of _ cfg] by blast
  have 5: "0 \<le> clamp_watts cfg raw \<and> 0 \<le> py_round1 (clamp_watts cfg raw)" if "raw \<noteq> NaN"
    using clamp_watts_nonneg [OF that, of cfg] py_round1_nonneg by blast
  show ?thesis
    unfolding pp Let_def using 1 2 3 4 5 by simp
qed

text \<open>
  With \<^verbatim>\<open>min_power_w: 1000.125\<close>, a first tick (100 Wh at 1000) and a second one (101 Wh
  at 1010, a raw value of 360 W): the value is raised to 1000.125 and published as
  1000.1, which is below the configured minimum.
\<close>

lemma round_tenth_floor_example: "round_tenth (8001 / 8) = 10001 / 10"
  by (simp add: round_tenth_def round_half_even_def Let_def)

lemma first_tick_example:
  "faikin_energy_tick example_builtins floor_config ''state/ac1'' [''Wh'' \<mapsto> JInt 100] (Fin 1000)
     Map.empty =
     ([''ac1'' \<mapsto> tracked_rec 100 1000 0],
      [discovery_msg floor_config ''ac1'' ''faikin-ac1'' (Some ''http://ac1.local/''),
       \<lparr>topic = ''faikin/ac1/power_w'', payload = Watts 0, qos = 0, retain = True\<rparr>])"
proof -
  have h1: "topic_unit ''state/ac1'' = Some ''ac1''" by (simp add: topic_unit_def)
  have h2: "parse_wh example_builtins [''Wh'' \<mapsto> JInt 100] = Some 100" by (simp add: parse_wh_def)
  have d: "discovery floor_config ''ac1'' (device_id example_builtins [''Wh'' \<mapsto> JInt 100] ''ac1'')
          (Some (''http://'' @ ''ac1'' @ ''.local/'')) Map.empty =
        ([''ac1'' \<mapsto> empty_rec\<lparr>discovered := Some True\<rparr>],
         [discovery_msg floor_config ''ac1'' ''faikin-ac1'' (Some ''http://ac1.local/'')])"
    by (simp add: discovery_eq device_id_def get_rec_def empty_rec_def upd_rec_def)
  have u: "update_from_energy example_builtins floor_config ''ac1'' 100 (Fin 1000)
             [''ac1'' \<mapsto> empty_rec\<lparr>discovered := Some True\<rparr>] =
           ([''ac1'' \<mapsto> tracked_rec 100 1000 0],
            [\<lparr>topic = ''faikin/ac1/power_w'', payload = Watts 0, qos = 0, retain = True\<rparr>])"
    by (subst update_reinit)
       (simp_all add: reinit_eq empty_rec_def tracked_rec_def power_topic_def zero_pyfloat_def)
  show ?thesis
    unfolding tick_parsed [OF h1 h2] d Let_def prod.case u by simp
qed

lemma second_tick_example:
  "faikin_energy_tick example_builtins floor_config ''state/ac1'' [''Wh'' \<mapsto> JInt 101] (Fin 1010)
     [''ac1'' \<mapsto> tracked_rec 100 1000 0] =
     ([''ac1'' \<mapsto> (tracked_rec 101 1010 1025)\<lparr>last_w := Some (Fin (8001 / 8))\<rparr>],
      [\<lparr>topic = ''faikin/ac1/power_w'', payload = Watts (Fin (10001 / 10)), qos = 0,
        retain = True\<rparr>])"
proof -
  let ?st = "[''ac1'' \<mapsto> tracked_rec 100 1000 0]"
  have h1: "topic_unit ''state/ac1'' = Some ''ac1''" by (simp add: topic_unit_def)
  have h2: "parse_wh example_builtins [''Wh'' \<mapsto> JInt 101] = Some 101" by (simp add: parse_wh_def)
  have d: "discovery floor_config ''ac1'' (device_id example_builtins [''Wh'' \<mapsto> JInt 101] ''ac1'')
          (Some (''http://'' @ ''ac1'' @ ''.local/'')) ?st = (?st, [])"
    by (rule discovery_known) (simp add: tracked_rec_def)
  have l1: "last_wh (get_rec ?st ''ac1'') = Some 100" by (simp add: tracked_rec_def)
  have l2: "last_ts (get_rec ?st ''ac1'') = Some (Fin 1000)" by (simp add: tracked_rec_def)
  have i: "(100::int) < 101" by simp
  have f: "float_of_int (101 - 100) = Some (Fin 1)" by simp
  have u: "update_from_energy example_builtins floor_config ''ac1'' 101 (Fin 1010) ?st =
           ([''ac1'' \<mapsto> (tracked_rec 101 1010 1025)\<lparr>last_w := Some (Fin (8001 / 8))\<rparr>],
            [\<lparr>topic = ''faikin/ac1/power_w'', payload = Watts (Fin (10001 / 10)), qos = 0,
              retain = True\<rparr>])"
    unfolding update_increase [OF l1 l2 i f]
    by (simp add: publish_power_def clamp_watts_def floor_config_def py_max_def
          default_config_def compute_hold_seconds_def round_tenth_floor_example upd_rec_def
          tracked_rec_def power_topic_def fl_three_halves)
  show ?thesis
    unfolding tick_parsed [OF h1 h2] d Let_def prod.case u by simp
qed

lemma two_ticks_example:
  "run example_builtins floor_config
     [EnergyTick ''state/ac1'' [''Wh'' \<mapsto> JInt 100] (Fin 1000),
      EnergyTick ''state/ac1'' [''Wh'' \<mapsto> JInt 101] (Fin 1010)] Map.empty =
     ([''ac1'' \<mapsto> (tracked_rec 101 1010 1025)\<lparr>last_w := Some (Fin (8001 / 8))\<rparr>],
      [discovery_msg floor_config ''ac1'' ''faikin-ac1'' (Some ''http://ac1.local/''),
       \<lparr>topic = ''faikin/ac1/power_w'', payload = Watts 0, qos = 0, retain = True\<rparr>,
       \<lparr>topic = ''faikin/ac1/power_w'', payload = Watts (Fin (10001 / 10)), qos = 0,
         retain = True\<rparr>])"
  by (simp add: first_tick_example second_tick_example)

theorem published_below_unrounded_floor:
  "map watts_of
     (snd (run example_builtins floor_config
        [EnergyTick ''state/ac1'' [''Wh'' \<mapsto> JInt 100] (Fin 1000),
         EnergyTick ''state/ac1'' [''Wh'' \<mapsto> JInt 101] (Fin 1010)] Map.empty)) =
     [None, Some 0, Some (Fin (10001 / 10))]
   \<and> MIN_POWER_W floor_config = Fin (8001 / 8) \<and> 0 < Fin (8001 / 8)
   \<and> fl_div (fl_mul (Fin 1) (Fin 3600)) (py_max (Fin (1 / 2)) (fl_sub (Fin 1010) (Fin 1000)))
       = Fin 360
   \<and> 0 < Fin 360
   \<and> Fin (10001 / 10) < Fin (8001 / 8)"
proof -
  have f: "MIN_POWER_W floor_config = Fin (8001 / 8)"
    by (simp add: floor_config_def)
  show ?thesis
    unfolding two_ticks_example f
    by (simp add: watts_of_def discovery_msg_def py_max_def)
qed

text \<open>The same run as an instance of the bounds.\<close>

theorem published_watts_bounded_witness:
  "Fin 360 \<noteq> NaN \<and> 0 < MIN_POWER_W floor_config \<and> 0 < Fin 360
   \<and> (let (st', out) = publish_power floor_config ''ac1'' (Fin 360)
                          [''ac1'' \<mapsto> tracked_rec 101 1010 1025]
      in last_w (get_rec st' ''ac1'') = Some (Fin (8001 / 8))
         \<and> map watts_of out = [Some (Fin (10001 / 10))])
   \<and> list_all (\<lambda>e. is_clock (event_time e))
        [EnergyTick ''state/ac1'' [''Wh'' \<mapsto> JInt 100] (Fin 1000),
         EnergyTick ''state/ac1'' [''Wh'' \<mapsto> JInt 101] (Fin 1010)]
   \<and> \<lparr>topic = ''faikin/ac1/power_w'', payload = Watts (Fin (10001 / 10)), qos = 0,
        retain = True\<rparr>
        \<in> set (snd (run example_builtins floor_config
            [EnergyTick ''state/ac1'' [''Wh'' \<mapsto> JInt 100] (Fin 1000),
             EnergyTick ''state/ac1'' [''Wh'' \<mapsto> JInt 101] (Fin 1010)] Map.empty))
   \<and> watts_of \<lparr>topic = ''faikin/ac1/power_w'', payload = Watts (Fin (10001 / 10)), qos = 0,
                 retain = True\<rparr> = Some (Fin (10001 / 10))
   \<and> 0 \<le> Fin (10001 / 10)
   \<and> py_round1 (MIN_POWER_W floor_config) \<le> Fin (10001 / 10)"
proof -
  let ?m = "\<lparr>topic = ''faikin/ac1/power_w'', payload = Watts (Fin (10001 / 10)), qos = 0,
             retain = True\<rparr>"
  let ?es = "[EnergyTick ''state/ac1'' [''Wh'' \<mapsto> JInt 100] (Fin 1000),
              EnergyTick ''state/ac1'' [''Wh'' \<mapsto> JInt 101] (Fin 1010)]"
  have c: "clamp_watts floor_config (Fin 360) = Fin (8001 / 8)"
    by (simp add: clamp_watts_def floor_config_def py_max_def)
  have f: "MIN_POWER_W floor_config = Fin (8001 / 8)"
    by (simp add: floor_config_def)
  have k: "\<forall>e\<in>set ?es. is_clock (event_time e)"
    by simp
  have m: "?m \<in> set (snd (run example_builtins floor_config ?es Map.empty))"
    unfolding two_ticks_example by simp
  have w: "watts_of ?m = Some (Fin (10001 / 10))"
    by (simp add: watts_of_def)
  have p: "let (st', out) = publish_power floor_config ''ac1'' (Fin 360)
                 [''ac1'' \<mapsto> tracked_rec 101 1010 1025]
           in last_w (get_rec st' ''ac1'') = Some (Fin (8001 / 8))
              \<and> map watts_of out = [Some (Fin (10001 / 10))]"
    using published_watts_bounded [where cfg = floor_config and unit = "''ac1''"
        and raw = "Fin 360" and st = "[''ac1'' \<mapsto> tracked_rec 101 1010 1025]"
        and b = example_builtins and es = "[]"]
    by (simp add: c round_tenth_floor_example Let_def split: prod.splits)
  have q: "0 \<le> Fin (10001 / 10) \<and> py_round1 (MIN_POWER_W floor_config) \<le> Fin (10001 / 10)"
    using published_watts_bounded [where cfg = floor_config and unit = "''ac1''"
        and raw = "Fin 360" and st = Map.empty and b = example_builtins and es = ?es] k m w
    by (simp add: f round_tenth_floor_example)
  show ?thesis
    using k m w p q by (simp add: f list_all_iff)
qed

end
